theory Spec2Isabelle
  imports Complex_Main "HOL-Library.Multiset" "HOL-Library.AList" "HOL-Library.Sublist"
begin

section \<open>Numbers and errors\<close>

text \<open>
  The notebooks compute with floating-point numbers. Finite values are idealised as
  real numbers (no rounding, no overflow). What is kept of the floating-point format is its
  three special values, because the code can produce them: the revenue table is a pandas
  frame of dtype float64, pandas hands out its cells as numpy scalars, and numpy's division
  by a zero divisor does not raise: it gives \<open>nan\<close> for \<open>0 / 0\<close> and a signed
  infinity otherwise (with a RuntimeWarning). The sign of that infinity depends on the sign
  of the zero, which a float has and a real number has not, so the sign bit of a divisor
  that can be zero is kept beside its value. Python's own \<open>/\<close> on \<open>int\<close> and
  \<open>float\<close> raises \<open>ZeroDivisionError\<close> instead; it is the one that the target
  calculator uses, on values taken out of the frames with \<open>sum\<close>, \<open>len\<close> and
  \<open>to_dict\<close>.
\<close>

datatype float64 = Fin real | PosInf | NegInf | NaN

datatype py_error = IndexError | KeyError | ZeroDivisionError

text \<open>
  numpy: \<open>a / b\<close> on two finite float64 scalars; \<open>b_signbit\<close> is the sign bit of
  the divisor (true for a negative number and for \<open>-0.0\<close>) and is read only when the
  divisor is zero. \<open>0 / 0\<close> is \<open>nan\<close>; any other \<open>a / 0\<close> is the infinity
  whose sign is the product of the two signs.
\<close>

definition np_div :: "real \<Rightarrow> real \<Rightarrow> bool \<Rightarrow> float64" where
  "np_div a b b_signbit =
     (if b \<noteq> 0 then Fin (a / b)
      else if a = 0 then NaN
      else if (a < 0) = b_signbit then PosInf
      else NegInf)"

text \<open>Comparisons of floats: every comparison with \<open>nan\<close> is false.\<close>

fun f_less :: "float64 \<Rightarrow> float64 \<Rightarrow> bool" where
  "f_less (Fin a) (Fin b) = (a < b)"
| "f_less (Fin a) PosInf = True"
| "f_less NegInf (Fin b) = True"
| "f_less NegInf PosInf = True"
| "f_less _ _ = False"

fun f_le :: "float64 \<Rightarrow> float64 \<Rightarrow> bool" where
  "f_le NaN _ = False"
| "f_le _ NaN = False"
| "f_le a b = (a = b \<or> f_less a b)"

definition isna :: "float64 \<Rightarrow> bool" where
  "isna v = (v = NaN)"

text \<open>Python: \<open>a / b\<close> on a finite number and an \<open>int\<close>.\<close>

definition py_div :: "real \<Rightarrow> int \<Rightarrow> py_error + real" where
  "py_div a b = (if b = 0 then Inl ZeroDivisionError else Inr (a / of_int b))"

section \<open>Data model\<close>

text \<open>
  \<open>pricing\<close> is a list of dictionaries with the keys \<open>Booking_Class\<close>,
  \<open>Base_Fare\<close>, \<open>Peak_Price\<close>, \<open>Off_Peak_Price\<close> and \<open>Risk_Factor\<close>;
  \<open>allocation\<close> is a dictionary from booking class to seats. A Python dictionary keeps
  its keys in insertion order, and that order is the order of the loops below, so a
  dictionary is an association list here; its keys are distinct.
\<close>

record pricing_record =
  Booking_Class :: string
  Base_Fare :: real
  Peak_Price :: real
  Off_Peak_Price :: real
  Risk_Factor :: real

type_synonym allocation = "(string \<times> int) list"

text \<open>
  One row of the frame that \<open>analyze_revenue_potential\<close> returns. The cell
  \<open>Off_Peak_Revenue\<close> is a divisor later on, so its float is kept whole: the value in
  \<open>Off_Peak_Revenue\<close> and the sign bit in \<open>Off_Peak_Signbit\<close>.
\<close>

record revenue_row =
  Seats :: int
  Base_Revenue :: real
  Peak_Revenue :: real
  Off_Peak_Revenue :: real
  Off_Peak_Signbit :: bool
  Revenue_Range :: real
  Row_Risk_Factor :: real
  Revenue_per_Seat :: float64

type_synonym revenue_table = "(string \<times> revenue_row) list"

section \<open>AdvancedRevenueAnalyzer\<close>

text \<open>
  \<open>pricing_df[pricing_df['Booking_Class'] == booking_class].iloc[0]\<close>: the first record
  of the class. A frame built from an empty list has no column \<open>Booking_Class\<close>
  (KeyError); \<open>iloc[0]\<close> on an empty selection raises IndexError.
\<close>

definition class_data :: "pricing_record list \<Rightarrow> string \<Rightarrow> py_error + pricing_record" where
  "class_data pricing booking_class =
     (if pricing = [] then Inl KeyError
      else case filter (\<lambda>r. Booking_Class r = booking_class) pricing of
             [] \<Rightarrow> Inl IndexError
           | r # _ \<Rightarrow> Inr r)"

text \<open>
  The body of the loop of \<open>analyze_revenue_potential\<close>, for one class. The prices and
  the risk factor are floats. The sign bit of a float product is the exclusive or of the
  sign bits of its factors, also when the product is zero; the integer \<open>seats\<close> and
  the difference \<open>1 - x\<close> are never a negative zero. The divisor \<open>seats\<close> of
  \<open>Revenue_per_Seat\<close> is an integer, so its zero is positive.
\<close>

definition revenue_scenarios :: "int \<Rightarrow> pricing_record \<Rightarrow> revenue_row" where
  "revenue_scenarios seats cd =
     (let optimal_revenue = of_int seats * Base_Fare cd * (1 - Risk_Factor cd);
          peak_revenue = of_int seats * Peak_Price cd * (1 - Risk_Factor cd * 0.8);
          off_peak_revenue = of_int seats * Off_Peak_Price cd * (1 - Risk_Factor cd * 1.2)
      in \<lparr> Seats = seats,
           Base_Revenue = optimal_revenue,
           Peak_Revenue = peak_revenue,
           Off_Peak_Revenue = off_peak_revenue,
           Off_Peak_Signbit =
             (((seats < 0) \<noteq> (Off_Peak_Price cd < 0)) \<noteq> (1 - Risk_Factor cd * 1.2 < 0)),
           Revenue_Range = peak_revenue - off_peak_revenue,
           Row_Risk_Factor = Risk_Factor cd,
           Revenue_per_Seat = np_div optimal_revenue (of_int seats) False \<rparr>)"

fun analyze_classes :: "pricing_record list \<Rightarrow> allocation \<Rightarrow> py_error + revenue_table" where
  "analyze_classes pricing [] = Inr []"
| "analyze_classes pricing ((booking_class, seats) # rest) =
     (case class_data pricing booking_class of
        Inl e \<Rightarrow> Inl e
      | Inr cd \<Rightarrow>
          (case analyze_classes pricing rest of
             Inl e \<Rightarrow> Inl e
           | Inr rows \<Rightarrow> Inr ((booking_class, revenue_scenarios seats cd) # rows)))"

definition analyze_revenue_potential ::
    "allocation \<Rightarrow> pricing_record list \<Rightarrow> py_error + revenue_table" where
  "analyze_revenue_potential allocation pricing = analyze_classes pricing allocation"

text \<open>
  \<open>sort_values('Revenue_per_Seat', ascending=False)\<close> is a call into pandas, with one
  sort key and the default \<open>kind='quicksort'\<close>, which pandas documents as not stable.
  What the call guarantees is that the result holds the rows of the frame, ordered by the
  key, descending, with the rows whose key is \<open>nan\<close> last (\<open>na_position='last'\<close>).
  The order of rows of equal key is not fixed by the source, so the sort is a parameter
  \<open>sort_values\<close> of the model, any function with this guarantee.
\<close>

definition descending :: "string \<times> revenue_row \<Rightarrow> string \<times> revenue_row \<Rightarrow> bool" where
  "descending a b \<longleftrightarrow>
     isna (Revenue_per_Seat (snd b))
     \<or> f_le (Revenue_per_Seat (snd b)) (Revenue_per_Seat (snd a))"

definition sorts_by_revenue_per_seat :: "(revenue_table \<Rightarrow> revenue_table) \<Rightarrow> bool" where
  "sorts_by_revenue_per_seat sort_values \<longleftrightarrow>
     (\<forall>df. mset (sort_values df) = mset df \<and> sorted_wrt descending (sort_values df))"

text \<open>
  Two sorts with this guarantee, for the examples: an insertion sort that leaves rows of
  equal key in their order in the frame, and the same sort run on the reversed frame,
  which leaves them in the opposite order.
\<close>

fun insort_desc :: "string \<times> revenue_row \<Rightarrow> revenue_table \<Rightarrow> revenue_table" where
  "insort_desc x [] = [x]"
| "insort_desc x (y # ys) =
     (if f_le (Revenue_per_Seat (snd y)) (Revenue_per_Seat (snd x))
      then x # y # ys
      else y # insort_desc x ys)"

definition sort_ties_kept :: "revenue_table \<Rightarrow> revenue_table" where
  "sort_ties_kept df =
     foldr insort_desc (filter (\<lambda>r. \<not> isna (Revenue_per_Seat (snd r))) df) []
     @ filter (\<lambda>r. isna (Revenue_per_Seat (snd r))) df"

definition sort_ties_reversed :: "revenue_table \<Rightarrow> revenue_table" where
  "sort_ties_reversed df =
     foldr insort_desc (rev (filter (\<lambda>r. \<not> isna (Revenue_per_Seat (snd r))) df)) []
     @ filter (\<lambda>r. isna (Revenue_per_Seat (snd r))) df"

record time_slots =
  Morning_Peak :: "string list"
  Midday :: "string list"
  Evening_Peak :: "string list"
  Off_Peak :: "string list"

definition peak_ratio :: "revenue_row \<Rightarrow> float64" where
  "peak_ratio revenue_data =
     np_div (Peak_Revenue revenue_data) (Off_Peak_Revenue revenue_data)
       (Off_Peak_Signbit revenue_data)"

text \<open>
  The body of the loop of \<open>optimize_peak_scheduling\<close>; \<open>n\<close> is
  \<open>len(sorted_classes)\<close>.
\<close>

definition assign_slot :: "nat \<Rightarrow> time_slots \<Rightarrow> string \<times> revenue_row \<Rightarrow> time_slots" where
  "assign_slot n ts entry =
     (let booking_class = fst entry; ratio = peak_ratio (snd entry)
      in if f_less (Fin 1.2) ratio then
           (if length (Morning_Peak ts) < n div 4
            then ts\<lparr>Morning_Peak := Morning_Peak ts @ [booking_class]\<rparr>
            else ts\<lparr>Evening_Peak := Evening_Peak ts @ [booking_class]\<rparr>)
         else if f_less (Fin 1.1) ratio then ts\<lparr>Midday := Midday ts @ [booking_class]\<rparr>
         else ts\<lparr>Off_Peak := Off_Peak ts @ [booking_class]\<rparr>)"

fun assign_slots :: "nat \<Rightarrow> revenue_table \<Rightarrow> time_slots \<Rightarrow> time_slots" where
  "assign_slots n [] ts = ts"
| "assign_slots n (entry # rest) ts = assign_slots n rest (assign_slot n ts entry)"

definition empty_slots :: time_slots where
  "empty_slots = \<lparr> Morning_Peak = [], Midday = [], Evening_Peak = [], Off_Peak = [] \<rparr>"

text \<open>
  A frame built from an empty dictionary has no columns, so sorting it by
  \<open>Revenue_per_Seat\<close> raises KeyError.
\<close>

definition optimize_peak_scheduling ::
    "(revenue_table \<Rightarrow> revenue_table) \<Rightarrow> allocation \<Rightarrow> pricing_record list
       \<Rightarrow> py_error + time_slots" where
  "optimize_peak_scheduling sort_values allocation pricing =
     (case analyze_revenue_potential allocation pricing of
        Inl e \<Rightarrow> Inl e
      | Inr revenue_analysis \<Rightarrow>
          if revenue_analysis = [] then Inl KeyError
          else let sorted_classes = sort_values revenue_analysis
               in Inr (assign_slots (length sorted_classes) sorted_classes empty_slots))"

section \<open>QuantitativeTargets\<close>

text \<open>
  Arithmetic of Python floats that may be infinite or \<open>nan\<close>: \<open>a + b\<close> and
  \<open>a * c\<close> for a finite \<open>c\<close>. Neither raises.
\<close>

fun f_add :: "float64 \<Rightarrow> float64 \<Rightarrow> float64" where
  "f_add (Fin a) (Fin b) = Fin (a + b)"
| "f_add NaN _ = NaN"
| "f_add _ NaN = NaN"
| "f_add PosInf NegInf = NaN"
| "f_add NegInf PosInf = NaN"
| "f_add PosInf _ = PosInf"
| "f_add _ PosInf = PosInf"
| "f_add NegInf _ = NegInf"
| "f_add _ NegInf = NegInf"

fun f_scale :: "float64 \<Rightarrow> real \<Rightarrow> float64" where
  "f_scale (Fin a) c = Fin (a * c)"
| "f_scale NaN c = NaN"
| "f_scale PosInf c = (if 0 < c then PosInf else if c < 0 then NegInf else NaN)"
| "f_scale NegInf c = (if 0 < c then NegInf else if c < 0 then PosInf else NaN)"

text \<open>\<open>sum(values)\<close> starts from the integer 0.\<close>

definition f_sum :: "float64 list \<Rightarrow> float64" where
  "f_sum vs = foldl f_add (Fin 0) vs"

text \<open>\<open>sum(values) / len(values)\<close>: Python's division, which raises on a zero length.\<close>

definition f_div_len :: "float64 \<Rightarrow> nat \<Rightarrow> py_error + float64" where
  "f_div_len v n = (if n = 0 then Inl ZeroDivisionError else Inr (f_scale v (1 / real n)))"

record current_metrics =
  total_revenue :: real
  avg_revenue_per_seat :: real
  class_performance :: "(string \<times> float64) list"
  risk_rates :: "(string \<times> real) list"
  current_occupancy :: real

text \<open>
  \<open>pricing.set_index('Booking_Class')['Risk_Factor'].to_dict()\<close>: a dictionary, so a
  class that occurs twice in the pricing keeps its first position and its last value.
\<close>

definition risk_rates_dict :: "pricing_record list \<Rightarrow> (string \<times> real) list" where
  "risk_rates_dict pricing =
     foldl (\<lambda>d r. AList.update (Booking_Class r) (Risk_Factor r) d) [] pricing"

text \<open>
  \<open>analyze_current_performance\<close>. The entries of the dictionary are evaluated in the
  order written: a frame without rows has no column \<open>Base_Revenue\<close> (KeyError), the
  average divides by the allocated seats (ZeroDivisionError), and a pricing frame built
  from an empty list has no column \<open>Booking_Class\<close> (KeyError).
\<close>

definition analyze_current_performance ::
    "revenue_table \<Rightarrow> allocation \<Rightarrow> pricing_record list \<Rightarrow> py_error + current_metrics" where
  "analyze_current_performance revenue_analysis allocation pricing =
     (if revenue_analysis = [] then Inl KeyError
      else
        let total = sum_list (map (\<lambda>r. Base_Revenue (snd r)) revenue_analysis);
            seats = sum_list (map snd allocation)
        in case py_div total seats of
             Inl e \<Rightarrow> Inl e
           | Inr avg \<Rightarrow>
               if pricing = [] then Inl KeyError
               else Inr \<lparr> total_revenue = total,
                          avg_revenue_per_seat = avg,
                          class_performance =
                            map (\<lambda>r. (fst r, Revenue_per_Seat (snd r))) revenue_analysis,
                          risk_rates = risk_rates_dict pricing,
                          current_occupancy = of_int seats / 400 \<rparr>)"

record key_metrics_rec =
  current_rev_per_seat :: real
  target_rev_per_seat :: real
  improvement_percentage :: string

record overall_targets =
  current_daily_revenue :: real
  target_daily_revenue :: real
  revenue_improvement :: real
  target_revenue_per_seat :: real
  timeframe :: string
  key_metrics :: key_metrics_rec

definition set_overall_targets :: "current_metrics \<Rightarrow> overall_targets" where
  "set_overall_targets current =
     \<lparr> current_daily_revenue = total_revenue current,
       target_daily_revenue = total_revenue current * 1.15,
       revenue_improvement = total_revenue current * 0.15,
       target_revenue_per_seat = avg_revenue_per_seat current * 1.15,
       timeframe = ''Next 6 months'',
       key_metrics =
         \<lparr> current_rev_per_seat = avg_revenue_per_seat current,
           target_rev_per_seat = avg_revenue_per_seat current * 1.15,
           improvement_percentage = ''15%'' \<rparr> \<rparr>"

definition get_class_actions :: "string \<Rightarrow> string list option" where
  "get_class_actions class_type =
     map_of
       [(''premium'',
           [''Increase base fare by 10-15% during peak hours'',
            ''Implement loyalty program benefits'',
            ''Add premium services'',
            ''Reduce risk rate to 5%'']),
        (''mid_tier'',
           [''Optimize pricing with 5-10% increases'',
            ''Implement flexible booking conditions'',
            ''Target 85% occupancy rate'',
            ''Reduce risk rate to 10%'']),
        (''economy'',
           [''Dynamic pricing based on demand'',
            ''Implement advance purchase discounts'',
            ''Target 80% occupancy rate'',
            ''Manage risk rate to 15%''])]
       class_type"

text \<open>
  The targets of one yield tier. \<open>target_increase\<close> is the number that the source
  formats with a percent sign.
\<close>

record tier_target =
  classes :: "string list"
  current_average :: float64
  target_increase :: real
  target_revenue :: "(string \<times> float64) list"
  suggested_actions :: "string list"

text \<open>The body of the loop of \<open>_set_class_targets\<close>, for one tier.\<close>

definition tier_targets :: "string \<Rightarrow> (string \<times> float64) list \<Rightarrow> py_error + tier_target" where
  "tier_targets class_type members =
     (let improvement_target =
            (if class_type = ''premium'' then 0.20
             else if class_type = ''mid_tier'' then 0.15 else (0.10 :: real))
      in case f_div_len (f_sum (map snd members)) (length members) of
           Inl e \<Rightarrow> Inl e
         | Inr average \<Rightarrow>
             (case get_class_actions class_type of
                None \<Rightarrow> Inl KeyError
              | Some actions \<Rightarrow>
                  Inr \<lparr> classes = map fst members,
                        current_average = average,
                        target_increase = improvement_target * 100,
                        target_revenue =
                          map (\<lambda>kv. (fst kv, f_scale (snd kv) (1 + improvement_target))) members,
                        suggested_actions = actions \<rparr>))"

fun class_targets_loop ::
    "(string \<times> (string \<times> float64) list) list \<Rightarrow> py_error + (string \<times> tier_target) list" where
  "class_targets_loop [] = Inr []"
| "class_targets_loop ((class_type, members) # rest) =
     (case tier_targets class_type members of
        Inl e \<Rightarrow> Inl e
      | Inr t \<Rightarrow>
          (case class_targets_loop rest of
             Inl e \<Rightarrow> Inl e
           | Inr ts \<Rightarrow> Inr ((class_type, t) # ts)))"

definition high_yield :: "current_metrics \<Rightarrow> (string \<times> float64) list" where
  "high_yield current =
     filter (\<lambda>kv. f_less (Fin (avg_revenue_per_seat current * 1.2)) (snd kv))
       (class_performance current)"

definition mid_yield :: "current_metrics \<Rightarrow> (string \<times> float64) list" where
  "mid_yield current =
     filter (\<lambda>kv. f_le (Fin (avg_revenue_per_seat current * 0.8)) (snd kv)
                 \<and> f_le (snd kv) (Fin (avg_revenue_per_seat current * 1.2)))
       (class_performance current)"

definition low_yield :: "current_metrics \<Rightarrow> (string \<times> float64) list" where
  "low_yield current =
     filter (\<lambda>kv. f_less (snd kv) (Fin (avg_revenue_per_seat current * 0.8)))
       (class_performance current)"

definition set_class_targets :: "current_metrics \<Rightarrow> py_error + (string \<times> tier_target) list" where
  "set_class_targets current =
     class_targets_loop
       [(''premium'', high_yield current),
        (''mid_tier'', mid_yield current),
        (''economy'', low_yield current)]"

definition set_time_targets :: "current_metrics \<Rightarrow> (string \<times> (string \<times> real) list) list" where
  "set_time_targets current =
     [(''peak_morning'',
         [(''target_occupancy'', 0.95), (''target_premium_mix'', 0.40), (''revenue_premium'', 1.25)]),
      (''midday'',
         [(''target_occupancy'', 0.85), (''target_premium_mix'', 0.30), (''revenue_premium'', 1.15)]),
      (''evening_peak'',
         [(''target_occupancy'', 0.90), (''target_premium_mix'', 0.35), (''revenue_premium'', 1.20)]),
      (''off_peak'',
         [(''target_occupancy'', 0.75), (''target_premium_mix'', 0.25), (''revenue_premium'', 1.10)])]"

text \<open>The dictionary with the keys \<open>current\<close> and \<open>target\<close> of one class-code group.\<close>

record risk_group =
  current_risk :: real
  target_risk :: real

record risk_targets =
  current_avg_risk :: real
  target_avg_risk :: real
  by_class_type :: "(string \<times> risk_group) list"

text \<open>\<open>sum(v for k, v in risk_rates.items() if ...)\<close>.\<close>

definition risk_sum :: "(string \<Rightarrow> bool) \<Rightarrow> (string \<times> real) list \<Rightarrow> real" where
  "risk_sum keep rates = sum_list (map snd (filter (\<lambda>kv. keep (fst kv)) rates))"

definition set_risk_targets :: "current_metrics \<Rightarrow> py_error + risk_targets" where
  "set_risk_targets current =
     (let rates = risk_rates current; n = int (length rates)
      in case py_div (sum_list (map snd rates)) n of
           Inl e \<Rightarrow> Inl e
         | Inr avg_risk \<Rightarrow>
             (case py_div
                     (risk_sum (\<lambda>k. k \<notin> set [''J'', ''Y'', ''C'', ''B'', ''D'', ''W'', ''H'']) rates)
                     (n - 7) of
                Inl e \<Rightarrow> Inl e
              | Inr economy_current \<Rightarrow>
                  Inr \<lparr> current_avg_risk = avg_risk,
                        target_avg_risk = avg_risk * 0.85,
                        by_class_type =
                          [(''premium'',
                              \<lparr> current_risk = risk_sum (\<lambda>k. k \<in> set [''J'', ''Y'']) rates / 2,
                                target_risk = 0.05 \<rparr>),
                           (''mid_tier'',
                              \<lparr> current_risk =
                                  risk_sum (\<lambda>k. k \<in> set [''C'', ''B'', ''D'', ''W'', ''H'']) rates / 5,
                                target_risk = 0.10 \<rparr>),
                           (''economy'', \<lparr> current_risk = economy_current, target_risk = 0.15 \<rparr>)] \<rparr>))"

record occupancy_targets =
  occupancy_current :: real
  occupancy_target :: real
  occupancy_by_class :: "(string \<times> real) list"
  overbooking_limits :: "(string \<times> real) list"

definition set_occupancy_targets :: "current_metrics \<Rightarrow> occupancy_targets" where
  "set_occupancy_targets current =
     \<lparr> occupancy_current = current_occupancy current,
       occupancy_target = min (current_occupancy current * 1.10) 0.95,
       occupancy_by_class = [(''premium'', 0.90), (''mid_tier'', 0.85), (''economy'', 0.80)],
       overbooking_limits = [(''peak'', 1.15), (''off_peak'', 1.10)] \<rparr>"

record revenue_targets =
  overall :: overall_targets
  by_class :: "(string \<times> tier_target) list"
  by_time :: "(string \<times> (string \<times> real) list) list"

record targets =
  revenue_targets_of :: revenue_targets
  risk_targets_of :: risk_targets
  occupancy_targets_of :: occupancy_targets

text \<open>
  \<open>calculate_revenue_targets\<close>: the entries are evaluated in the order written, and the
  first exception ends the call.
\<close>

definition calculate_revenue_targets ::
    "revenue_table \<Rightarrow> allocation \<Rightarrow> pricing_record list \<Rightarrow> py_error + targets" where
  "calculate_revenue_targets revenue_analysis allocation pricing =
     (case analyze_current_performance revenue_analysis allocation pricing of
        Inl e \<Rightarrow> Inl e
      | Inr current_metrics \<Rightarrow>
          (case set_class_targets current_metrics of
             Inl e \<Rightarrow> Inl e
           | Inr class_targets \<Rightarrow>
               (case set_risk_targets current_metrics of
                  Inl e \<Rightarrow> Inl e
                | Inr risk \<Rightarrow>
                    Inr \<lparr> revenue_targets_of =
                            \<lparr> overall = set_overall_targets current_metrics,
                              by_class = class_targets,
                              by_time = set_time_targets current_metrics \<rparr>,
                          risk_targets_of = risk,
                          occupancy_targets_of = set_occupancy_targets current_metrics \<rparr>)))"

section \<open>Example inputs\<close>

text \<open>
  The scenario of the specification: class Y with 100 seats (base 200, peak 260,
  off-peak 150, risk 0.1) and class J with 20 seats (base 500, peak 650, off-peak 400,
  risk 0.05).
\<close>

definition pricing_Y :: pricing_record where
  "pricing_Y = \<lparr> Booking_Class = ''Y'', Base_Fare = 200, Peak_Price = 260,
                 Off_Peak_Price = 150, Risk_Factor = 0.1 \<rparr>"

definition pricing_J :: pricing_record where
  "pricing_J = \<lparr> Booking_Class = ''J'', Base_Fare = 500, Peak_Price = 650,
                 Off_Peak_Price = 400, Risk_Factor = 0.05 \<rparr>"

definition scenario_pricing :: "pricing_record list" where
  "scenario_pricing = [pricing_Y, pricing_J]"

definition scenario_allocation :: allocation where
  "scenario_allocation = [(''Y'', 100), (''J'', 20)]"

definition scenario_table :: revenue_table where
  "scenario_table =
     [(''Y'', \<lparr> Seats = 100, Base_Revenue = 18000, Peak_Revenue = 23920,
               Off_Peak_Revenue = 13200, Off_Peak_Signbit = False, Revenue_Range = 10720,
               Row_Risk_Factor = 0.1, Revenue_per_Seat = Fin 180 \<rparr>),
      (''J'', \<lparr> Seats = 20, Base_Revenue = 9500, Peak_Revenue = 12480,
               Off_Peak_Revenue = 7520, Off_Peak_Signbit = False, Revenue_Range = 4960,
               Row_Risk_Factor = 0.05, Revenue_per_Seat = Fin 475 \<rparr>)]"

text \<open>
  Four classes of 10 seats with no risk, allocated in the order D, C, B, A: the revenue
  per seat is the base fare (100 to 400) and the peak ratio is the peak price over the
  off-peak price (1.0, 1.15, 1.3 and 1.5).
\<close>

definition fleet_pricing :: "pricing_record list" where
  "fleet_pricing =
     [\<lparr> Booking_Class = ''A'', Base_Fare = 400, Peak_Price = 150, Off_Peak_Price = 100, Risk_Factor = 0 \<rparr>,
      \<lparr> Booking_Class = ''B'', Base_Fare = 300, Peak_Price = 130, Off_Peak_Price = 100, Risk_Factor = 0 \<rparr>,
      \<lparr> Booking_Class = ''C'', Base_Fare = 200, Peak_Price = 115, Off_Peak_Price = 100, Risk_Factor = 0 \<rparr>,
      \<lparr> Booking_Class = ''D'', Base_Fare = 100, Peak_Price = 100, Off_Peak_Price = 100, Risk_Factor = 0 \<rparr>]"

definition fleet_allocation :: allocation where
  "fleet_allocation = [(''D'', 10), (''C'', 10), (''B'', 10), (''A'', 10)]"

definition fleet_table :: revenue_table where
  "fleet_table =
     [(''D'', \<lparr> Seats = 10, Base_Revenue = 1000, Peak_Revenue = 1000,
               Off_Peak_Revenue = 1000, Off_Peak_Signbit = False, Revenue_Range = 0,
               Row_Risk_Factor = 0, Revenue_per_Seat = Fin 100 \<rparr>),
      (''C'', \<lparr> Seats = 10, Base_Revenue = 2000, Peak_Revenue = 1150,
               Off_Peak_Revenue = 1000, Off_Peak_Signbit = False, Revenue_Range = 150,
               Row_Risk_Factor = 0, Revenue_per_Seat = Fin 200 \<rparr>),
      (''B'', \<lparr> Seats = 10, Base_Revenue = 3000, Peak_Revenue = 1300,
               Off_Peak_Revenue = 1000, Off_Peak_Signbit = False, Revenue_Range = 300,
               Row_Risk_Factor = 0, Revenue_per_Seat = Fin 300 \<rparr>),
      (''A'', \<lparr> Seats = 10, Base_Revenue = 4000, Peak_Revenue = 1500,
               Off_Peak_Revenue = 1000, Off_Peak_Signbit = False, Revenue_Range = 500,
               Row_Risk_Factor = 0, Revenue_per_Seat = Fin 400 \<rparr>)]"

text \<open>Two classes with the prices of Y, so with the same revenue per seat.\<close>

definition tie_pricing :: "pricing_record list" where
  "tie_pricing = [pricing_Y\<lparr> Booking_Class := ''A'' \<rparr>, pricing_Y\<lparr> Booking_Class := ''B'' \<rparr>]"

text \<open>
  Three classes of 10 seats whose codes are in none of the class-code groups of the risk
  targets, and the metrics of the two examples.
\<close>

definition regional_pricing :: "pricing_record list" where
  "regional_pricing =
     [\<lparr> Booking_Class = ''K'', Base_Fare = 100, Peak_Price = 130, Off_Peak_Price = 80, Risk_Factor = 0.1 \<rparr>,
      \<lparr> Booking_Class = ''L'', Base_Fare = 200, Peak_Price = 260, Off_Peak_Price = 160, Risk_Factor = 0.2 \<rparr>,
      \<lparr> Booking_Class = ''M'', Base_Fare = 300, Peak_Price = 390, Off_Peak_Price = 240, Risk_Factor = 0.3 \<rparr>]"

definition regional_allocation :: allocation where
  "regional_allocation = [(''K'', 10), (''L'', 10), (''M'', 10)]"

definition regional_table :: revenue_table where
  "regional_table =
     [(''K'', \<lparr> Seats = 10, Base_Revenue = 900, Peak_Revenue = 1196,
               Off_Peak_Revenue = 704, Off_Peak_Signbit = False, Revenue_Range = 492,
               Row_Risk_Factor = 0.1, Revenue_per_Seat = Fin 90 \<rparr>),
      (''L'', \<lparr> Seats = 10, Base_Revenue = 1600, Peak_Revenue = 2184,
               Off_Peak_Revenue = 1216, Off_Peak_Signbit = False, Revenue_Range = 968,
               Row_Risk_Factor = 0.2, Revenue_per_Seat = Fin 160 \<rparr>),
      (''M'', \<lparr> Seats = 10, Base_Revenue = 2100, Peak_Revenue = 2964,
               Off_Peak_Revenue = 1536, Off_Peak_Signbit = False, Revenue_Range = 1428,
               Row_Risk_Factor = 0.3, Revenue_per_Seat = Fin 210 \<rparr>)]"

definition regional_metrics :: current_metrics where
  "regional_metrics =
     \<lparr> total_revenue = 4600,
       avg_revenue_per_seat = 460 / 3,
       class_performance = [(''K'', Fin 90), (''L'', Fin 160), (''M'', Fin 210)],
       risk_rates = [(''K'', 0.1), (''L'', 0.2), (''M'', 0.3)],
       current_occupancy = 30 / 400 \<rparr>"

definition scenario_metrics :: current_metrics where
  "scenario_metrics =
     \<lparr> total_revenue = 27500,
       avg_revenue_per_seat = 27500 / 120,
       class_performance = [(''Y'', Fin 180), (''J'', Fin 475)],
       risk_rates = [(''Y'', 0.1), (''J'', 0.05)],
       current_occupancy = 120 / 400 \<rparr>"

text \<open>A pricing of exactly the seven class codes that the risk targets name.\<close>

definition seven_pricing :: "pricing_record list" where
  "seven_pricing =
     map (\<lambda>c. pricing_Y\<lparr> Booking_Class := c \<rparr>) [''J'', ''Y'', ''C'', ''B'', ''D'', ''W'', ''H'']"

section \<open>The revenue table\<close>

lemmas scenario_defs =
  pricing_Y_def pricing_J_def scenario_pricing_def scenario_allocation_def scenario_table_def

lemma scenario_analysis:
  "analyze_revenue_potential scenario_allocation scenario_pricing = Inr scenario_table"
  by (simp add: scenario_defs analyze_revenue_potential_def class_data_def
        revenue_scenarios_def np_div_def Let_def)

lemma analyze_classes_keys:
  "analyze_classes pricing allocation = Inr rows \<Longrightarrow> map fst rows = map fst allocation"
  by (induction allocation arbitrary: rows) (auto split: sum.splits)

lemma analyze_classes_member:
  "analyze_classes pricing allocation = Inr rows \<Longrightarrow> (c, s) \<in> set allocation \<Longrightarrow>
   \<exists>cd. class_data pricing c = Inr cd \<and> (c, revenue_scenarios s cd) \<in> set rows"
  by (induction allocation arbitrary: rows) (auto split: sum.splits)

lemma analyze_classes_member_conv:
  "analyze_classes pricing allocation = Inr rows \<Longrightarrow> (c, row) \<in> set rows \<Longrightarrow>
   \<exists>cd s. (c, s) \<in> set allocation \<and> class_data pricing c = Inr cd
      \<and> row = revenue_scenarios s cd"
proof (induction allocation arbitrary: rows)
  case Nil
  then show ?case by simp
next
  case (Cons a rest)
  obtain c' s' where a: "a = (c', s')" by (cases a)
  from Cons.prems(1) a obtain cd' rows' where
    cd: "class_data pricing c' = Inr cd'" and
    rest: "analyze_classes pricing rest = Inr rows'" and
    rows: "rows = (c', revenue_scenarios s' cd') # rows'"
    by (auto split: sum.splits)
  show ?case
  proof (cases "(c, row) \<in> set rows'")
    case True
    from Cons.IH [OF rest True] show ?thesis by auto
  next
    case False
    with Cons.prems(2) rows have "c = c'" "row = revenue_scenarios s' cd'" by auto
    with cd a show ?thesis by auto
  qed
qed

text \<open>
  C1. When \<open>analyze_revenue_potential\<close> returns a table, every class \<open>c\<close> of the
  allocation, with seats \<open>s\<close> and pricing record \<open>cd\<close> (base fare, peak price,
  off-peak price, risk factor), has a row in it with
  \<open>Base_Revenue = s * base_fare * (1 - risk)\<close>,
  \<open>Peak_Revenue = s * peak_price * (1 - 0.8 * risk)\<close>,
  \<open>Off_Peak_Revenue = s * off_peak_price * (1 - 1.2 * risk)\<close> and
  \<open>Revenue_Range = Peak_Revenue - Off_Peak_Revenue\<close>.
\<close>

theorem revenue_formulas:
  assumes "analyze_revenue_potential allocation pricing = Inr revenue_analysis"
    and "distinct (map fst allocation)"
    and "(c, s) \<in> set allocation"
    and "class_data pricing c = Inr cd"
  shows "\<exists>row. map_of revenue_analysis c = Some row
      \<and> Seats row = s
      \<and> Base_Revenue row = of_int s * Base_Fare cd * (1 - Risk_Factor cd)
      \<and> Peak_Revenue row = of_int s * Peak_Price cd * (1 - 0.8 * Risk_Factor cd)
      \<and> Off_Peak_Revenue row = of_int s * Off_Peak_Price cd * (1 - 1.2 * Risk_Factor cd)
      \<and> Revenue_Range row = Peak_Revenue row - Off_Peak_Revenue row"
proof -
  from assms(1) have rows: "analyze_classes pricing allocation = Inr revenue_analysis"
    by (simp add: analyze_revenue_potential_def)
  from analyze_classes_member [OF rows assms(3)] assms(4)
  have mem: "(c, revenue_scenarios s cd) \<in> set revenue_analysis" by auto
  from analyze_classes_keys [OF rows] assms(2)
  have "distinct (map fst revenue_analysis)" by simp
  with mem have "map_of revenue_analysis c = Some (revenue_scenarios s cd)" by simp
  then show ?thesis
    by (simp add: revenue_scenarios_def Let_def mult.commute)
qed

theorem revenue_formulas_witness:
  "analyze_revenue_potential scenario_allocation scenario_pricing = Inr scenario_table
   \<and> distinct (map fst scenario_allocation)
   \<and> (''Y'', 100) \<in> set scenario_allocation
   \<and> class_data scenario_pricing ''Y'' = Inr pricing_Y
   \<and> (\<exists>row. map_of scenario_table ''Y'' = Some row
        \<and> Seats row = 100
        \<and> Base_Revenue row = 18000
        \<and> Peak_Revenue row = 23920
        \<and> Off_Peak_Revenue row = 13200
        \<and> Revenue_Range row = 10720)"
proof -
  have h2: "distinct (map fst scenario_allocation)"
    by (simp add: scenario_allocation_def)
  have h3: "(''Y'', 100) \<in> set scenario_allocation"
    by (simp add: scenario_allocation_def)
  have h4: "class_data scenario_pricing ''Y'' = Inr pricing_Y"
    by (simp add: class_data_def scenario_defs)
  from revenue_formulas [OF scenario_analysis h2 h3 h4]
  obtain row where "map_of scenario_table ''Y'' = Some row" "Seats row = 100"
    and "Base_Revenue row = 100 * Base_Fare pricing_Y * (1 - Risk_Factor pricing_Y)"
    and "Peak_Revenue row = 100 * Peak_Price pricing_Y * (1 - 0.8 * Risk_Factor pricing_Y)"
    and "Off_Peak_Revenue row
           = 100 * Off_Peak_Price pricing_Y * (1 - 1.2 * Risk_Factor pricing_Y)"
    and "Revenue_Range row = Peak_Revenue row - Off_Peak_Revenue row"
    by auto
  then have "map_of scenario_table ''Y'' = Some row \<and> Seats row = 100
      \<and> Base_Revenue row = 18000 \<and> Peak_Revenue row = 23920
      \<and> Off_Peak_Revenue row = 13200 \<and> Revenue_Range row = 10720"
    by (simp add: pricing_Y_def)
  then show ?thesis
    using scenario_analysis h2 h3 h4 by blast
qed

lemma class_data_Inr_iff:
  "(\<exists>cd. class_data pricing c = Inr cd) \<longleftrightarrow> c \<in> Booking_Class ` set pricing"
proof -
  have "filter (\<lambda>r. Booking_Class r = c) pricing = [] \<longleftrightarrow> c \<notin> Booking_Class ` set pricing"
    by (auto simp: filter_empty_conv)
  then show ?thesis
    by (auto simp: class_data_def split: list.splits)
qed

lemma class_data_Inl:
  "class_data pricing c = Inl e \<Longrightarrow> e = (if pricing = [] then KeyError else IndexError)"
  by (auto simp: class_data_def split: list.splits if_splits)

lemma analyze_classes_Inl:
  "analyze_classes pricing allocation = Inl e \<Longrightarrow>
   e = (if pricing = [] then KeyError else IndexError)"
proof (induction allocation)
  case Nil
  then show ?case by simp
next
  case (Cons a rest)
  obtain c s where a: "a = (c, s)" by (cases a)
  show ?case
  proof (cases "class_data pricing c")
    case (Inl e')
    with Cons.prems a have "e' = e" by simp
    with class_data_Inl [OF Inl] show ?thesis by simp
  next
    case (Inr cd)
    with Cons.prems a have "analyze_classes pricing rest = Inl e"
      by (auto split: sum.splits)
    then show ?thesis by (rule Cons.IH)
  qed
qed

lemma analyze_classes_total:
  "(\<forall>c \<in> fst ` set allocation. c \<in> Booking_Class ` set pricing) \<Longrightarrow>
   \<exists>rows. analyze_classes pricing allocation = Inr rows"
proof (induction allocation)
  case Nil
  then show ?case by simp
next
  case (Cons a rest)
  obtain c s where a: "a = (c, s)" by (cases a)
  from Cons.prems a have "c \<in> Booking_Class ` set pricing" by simp
  then obtain cd where cd: "class_data pricing c = Inr cd"
    using class_data_Inr_iff by blast
  from Cons obtain rows where "analyze_classes pricing rest = Inr rows" by auto
  with cd a show ?case by simp
qed

lemma scenario_ordering:
  fixes s q p r :: real
  assumes "0 \<le> s" "0 \<le> q" "q \<le> p" "0 \<le> r" "r \<le> 1"
  shows "s * q * (1 - r * 1.2) \<le> s * p * (1 - r * 0.8)"
proof -
  have "q * (1 - r * 1.2) \<le> q * (1 - r * 0.8)"
    using assms by (intro mult_left_mono) auto
  also have "\<dots> \<le> p * (1 - r * 0.8)"
    using assms by (intro mult_right_mono) auto
  finally have "s * (q * (1 - r * 1.2)) \<le> s * (p * (1 - r * 0.8))"
    using assms(1) by (rule mult_left_mono)
  then show ?thesis by (simp add: mult.assoc)
qed

text \<open>
  C7. For a class with non-negative seats, with
  \<open>peak_price \<ge> off_peak_price \<ge> 0\<close> and a risk factor in \<open>[0, 1]\<close>, the
  row of the revenue table has \<open>Peak_Revenue \<ge> Off_Peak_Revenue\<close>.
\<close>

theorem peak_ge_off_peak:
  assumes "analyze_revenue_potential allocation pricing = Inr revenue_analysis"
    and "(c, row) \<in> set revenue_analysis"
    and "class_data pricing c = Inr cd"
    and "0 \<le> Seats row"
    and "0 \<le> Off_Peak_Price cd" and "Off_Peak_Price cd \<le> Peak_Price cd"
    and "0 \<le> Risk_Factor cd" and "Risk_Factor cd \<le> 1"
  shows "Off_Peak_Revenue row \<le> Peak_Revenue row"
proof -
  from assms(1) have rows: "analyze_classes pricing allocation = Inr revenue_analysis"
    by (simp add: analyze_revenue_potential_def)
  from analyze_classes_member_conv [OF rows assms(2)] assms(3)
  obtain s where row: "row = revenue_scenarios s cd" by auto
  with assms(4) have "0 \<le> (of_int s :: real)"
    by (simp add: revenue_scenarios_def Let_def)
  from scenario_ordering [OF this assms(5-8)] row show ?thesis
    by (simp add: revenue_scenarios_def Let_def)
qed

theorem peak_ge_off_peak_witness:
  "\<exists>row. analyze_revenue_potential scenario_allocation scenario_pricing = Inr scenario_table
     \<and> (''J'', row) \<in> set scenario_table
     \<and> class_data scenario_pricing ''J'' = Inr pricing_J
     \<and> 0 \<le> Seats row
     \<and> 0 \<le> Off_Peak_Price pricing_J \<and> Off_Peak_Price pricing_J \<le> Peak_Price pricing_J
     \<and> 0 \<le> Risk_Factor pricing_J \<and> Risk_Factor pricing_J \<le> 1
     \<and> Off_Peak_Revenue row = 7520 \<and> Peak_Revenue row = 12480
     \<and> Off_Peak_Revenue row \<le> Peak_Revenue row"
proof -
  define row where "row = snd (scenario_table ! 1)"
  have h2: "(''J'', row) \<in> set scenario_table"
    by (simp add: row_def scenario_table_def)
  have h3: "class_data scenario_pricing ''J'' = Inr pricing_J"
    by (simp add: class_data_def scenario_defs)
  have h4: "0 \<le> Seats row"
    by (simp add: row_def scenario_table_def)
  have h5: "0 \<le> Off_Peak_Price pricing_J" and h6: "Off_Peak_Price pricing_J \<le> Peak_Price pricing_J"
    and h7: "0 \<le> Risk_Factor pricing_J" and h8: "Risk_Factor pricing_J \<le> 1"
    by (simp_all add: pricing_J_def)
  have vals: "Off_Peak_Revenue row = 7520" "Peak_Revenue row = 12480"
    by (simp_all add: row_def scenario_table_def)
  from peak_ge_off_peak [OF scenario_analysis h2 h3 h4 h5 h6 h7 h8]
  have "Off_Peak_Revenue row \<le> Peak_Revenue row" .
  with scenario_analysis h2 h3 h4 h5 h6 h7 h8 vals show ?thesis by blast
qed

text \<open>
  C8. When the allocation contains a class that has no record in the pricing,
  \<open>analyze_revenue_potential\<close> does not return a table: the lookup of that class raises
  (IndexError from \<open>iloc[0]\<close>, or KeyError when the pricing is empty), and so does the
  call. These are the exceptions of the source for the condition that the specification
  calls UnknownClassError.
\<close>

theorem unknown_class_fails:
  assumes "(c, s) \<in> set allocation" and "c \<notin> Booking_Class ` set pricing"
  shows "class_data pricing c = Inl (if pricing = [] then KeyError else IndexError)
       \<and> analyze_revenue_potential allocation pricing
            = Inl (if pricing = [] then KeyError else IndexError)"
proof -
  from assms(2) have no: "\<not> (\<exists>cd. class_data pricing c = Inr cd)"
    by (simp add: class_data_Inr_iff)
  then obtain e where e: "class_data pricing c = Inl e"
    by (cases "class_data pricing c") auto
  have "\<not> (\<exists>rows. analyze_classes pricing allocation = Inr rows)"
    using analyze_classes_member [OF _ assms(1)] no by blast
  then obtain e' where e': "analyze_classes pricing allocation = Inl e'"
    by (cases "analyze_classes pricing allocation") auto
  from class_data_Inl [OF e] analyze_classes_Inl [OF e'] e e'
  show ?thesis by (simp add: analyze_revenue_potential_def)
qed

theorem unknown_class_fails_witness:
  "(''Q'', 1) \<in> set [(''Y'', 10), (''Q'', 1)]
   \<and> ''Q'' \<notin> Booking_Class ` set scenario_pricing
   \<and> class_data scenario_pricing ''Q'' = Inl IndexError
   \<and> analyze_revenue_potential [(''Y'', 10), (''Q'', 1)] scenario_pricing = Inl IndexError"
proof -
  have h1: "(''Q'', 1) \<in> set [(''Y'', 10), (''Q'', 1 :: int)]" by simp
  have h2: "''Q'' \<notin> Booking_Class ` set scenario_pricing"
    by (simp add: scenario_defs)
  have ne: "scenario_pricing \<noteq> []"
    by (simp add: scenario_defs)
  from unknown_class_fails [OF h1 h2] ne h1 h2 show ?thesis by simp
qed

section \<open>Zero divisors\<close>

lemma optimize_peak_scheduling_Inl:
  "optimize_peak_scheduling sort_values allocation pricing = Inl e \<Longrightarrow>
   e = KeyError \<or> e = IndexError"
  by (auto simp: optimize_peak_scheduling_def analyze_revenue_potential_def Let_def
        split: sum.splits if_splits dest: analyze_classes_Inl)

lemma revenue_scenarios_zero_seats:
  "Seats (revenue_scenarios s cd) = 0 \<Longrightarrow> Revenue_per_Seat (revenue_scenarios s cd) = NaN"
  by (simp add: revenue_scenarios_def Let_def np_div_def)

text \<open>
  C3, as the code has it. Neither ratio is guarded and neither raises. Whenever every
  allocated class has a pricing record, \<open>analyze_revenue_potential\<close> returns its table,
  whatever the seats: a class with 0 seats has \<open>Revenue_per_Seat = nan\<close> (0 / 0). A row
  with \<open>Off_Peak_Revenue = 0\<close> has a \<open>peak_ratio\<close> that is no number (an infinity or
  \<open>nan\<close>), and \<open>optimize_peak_scheduling\<close> still returns its time slots for every
  non-empty allocation, whatever the sort does.
\<close>

theorem zero_divisor_unguarded:
  assumes "\<forall>c \<in> fst ` set allocation. c \<in> Booking_Class ` set pricing"
  shows "\<exists>revenue_analysis.
           analyze_revenue_potential allocation pricing = Inr revenue_analysis
         \<and> (\<forall>(c, row) \<in> set revenue_analysis.
               (Seats row = 0 \<longrightarrow> Revenue_per_Seat row = NaN)
             \<and> (Off_Peak_Revenue row = 0 \<longrightarrow> peak_ratio row \<in> {PosInf, NegInf, NaN}))
         \<and> (allocation \<noteq> [] \<longrightarrow>
               (\<exists>ts. optimize_peak_scheduling sort_values allocation pricing = Inr ts))"
proof -
  from analyze_classes_total [OF assms]
  obtain rows where rows: "analyze_classes pricing allocation = Inr rows" by blast
  have seats: "Seats row = 0 \<longrightarrow> Revenue_per_Seat row = NaN" if "(c, row) \<in> set rows" for c row
    using analyze_classes_member_conv [OF rows that] revenue_scenarios_zero_seats by blast
  have ratio: "Off_Peak_Revenue row = 0 \<longrightarrow> peak_ratio row \<in> {PosInf, NegInf, NaN}" for row
    by (simp add: peak_ratio_def np_div_def)
  have "rows \<noteq> []" if "allocation \<noteq> []"
    using analyze_classes_keys [OF rows] that by auto
  then have sched: "allocation \<noteq> [] \<longrightarrow>
      (\<exists>ts. optimize_peak_scheduling sort_values allocation pricing = Inr ts)"
    using rows by (simp add: optimize_peak_scheduling_def analyze_revenue_potential_def Let_def)
  from rows seats ratio sched show ?thesis
    by (auto simp: analyze_revenue_potential_def)
qed

theorem zero_divisor_unguarded_witness:
  "\<exists>revenue_analysis ts.
      analyze_revenue_potential [(''Y'', 0)] scenario_pricing = Inr revenue_analysis
    \<and> optimize_peak_scheduling sort_ties_kept [(''Y'', 0)] scenario_pricing = Inr ts"
proof -
  have h: "\<forall>c \<in> fst ` set [(''Y'', 0 :: int)]. c \<in> Booking_Class ` set scenario_pricing"
    by (simp add: scenario_defs)
  from zero_divisor_unguarded [OF h, of sort_ties_kept] show ?thesis by auto
qed

text \<open>
  C3, as stated, fails, and no error is raised. (Each table below has one row, which
  every sort returns as it is.) With 0 seats for class Y the table is
  returned with \<open>Revenue_per_Seat = nan\<close>, and Y is scheduled in \<open>Off_Peak\<close>. With
  an off-peak price of 0 the off-peak revenue is zero and the ratio is infinite: at the
  risk 0.1 of Y the zero is positive, the ratio is plus infinity and Y is scheduled in
  \<open>Evening_Peak\<close>; at a risk of 0.9 the factor \<open>1 - 0.9 * 1.2\<close> is negative, the
  zero is negative, the ratio is minus infinity and Y is scheduled in \<open>Off_Peak\<close>.
\<close>

theorem zero_divisor_counterexample:
  "analyze_revenue_potential [(''Y'', 0)] scenario_pricing
     = Inr [(''Y'', \<lparr> Seats = 0, Base_Revenue = 0, Peak_Revenue = 0, Off_Peak_Revenue = 0,
                     Off_Peak_Signbit = False, Revenue_Range = 0, Row_Risk_Factor = 0.1,
                     Revenue_per_Seat = NaN \<rparr>)]
   \<and> optimize_peak_scheduling sort_ties_kept [(''Y'', 0)] scenario_pricing
     = Inr \<lparr> Morning_Peak = [], Midday = [], Evening_Peak = [], Off_Peak = [''Y''] \<rparr>
   \<and> optimize_peak_scheduling sort_ties_kept [(''Y'', 10)] [pricing_Y\<lparr> Off_Peak_Price := 0 \<rparr>]
     = Inr \<lparr> Morning_Peak = [], Midday = [], Evening_Peak = [''Y''], Off_Peak = [] \<rparr>
   \<and> optimize_peak_scheduling sort_ties_kept [(''Y'', 10)]
         [pricing_Y\<lparr> Off_Peak_Price := 0, Risk_Factor := 0.9 \<rparr>]
     = Inr \<lparr> Morning_Peak = [], Midday = [], Evening_Peak = [], Off_Peak = [''Y''] \<rparr>"
  by (simp add: optimize_peak_scheduling_def analyze_revenue_potential_def class_data_def
        scenario_defs revenue_scenarios_def np_div_def Let_def sort_ties_kept_def isna_def
        assign_slot_def peak_ratio_def empty_slots_def)

section \<open>Sorting and time slots\<close>

lemma f_le_refl: "v \<noteq> NaN \<Longrightarrow> f_le v v"
  by (cases v) auto

lemma f_le_total: "a \<noteq> NaN \<Longrightarrow> b \<noteq> NaN \<Longrightarrow> f_le a b \<or> f_le b a"
  by (cases a; cases b) auto

lemma f_le_trans: "f_le a b \<Longrightarrow> f_le b c \<Longrightarrow> f_le a c"
  by (cases a; cases b; cases c) auto

lemma mset_insort_desc: "mset (insort_desc x ys) = add_mset x (mset ys)"
  by (induction ys) auto

lemma mset_foldr_insort_desc: "mset (foldr insort_desc xs []) = mset xs"
  by (induction xs) (auto simp: mset_insort_desc)

lemma set_insort_desc: "set (insort_desc x ys) = insert x (set ys)"
  by (induction ys) auto

lemma sorted_insort_desc:
  assumes "sorted_wrt (\<lambda>a b. f_le (Revenue_per_Seat (snd b)) (Revenue_per_Seat (snd a))) ys"
    and "Revenue_per_Seat (snd x) \<noteq> NaN"
    and "\<forall>y \<in> set ys. Revenue_per_Seat (snd y) \<noteq> NaN"
  shows "sorted_wrt (\<lambda>a b. f_le (Revenue_per_Seat (snd b)) (Revenue_per_Seat (snd a)))
           (insort_desc x ys)"
  using assms
proof (induction ys)
  case Nil
  then show ?case by simp
next
  case (Cons y ys)
  show ?case
  proof (cases "f_le (Revenue_per_Seat (snd y)) (Revenue_per_Seat (snd x))")
    case True
    with Cons.prems(1) show ?thesis
      by (auto intro: f_le_trans)
  next
    case False
    with Cons.prems f_le_total have "f_le (Revenue_per_Seat (snd x)) (Revenue_per_Seat (snd y))"
      by auto
    with False Cons show ?thesis
      by (auto simp: set_insort_desc)
  qed
qed

lemma sorted_foldr_insort_desc:
  "\<forall>y \<in> set xs. Revenue_per_Seat (snd y) \<noteq> NaN \<Longrightarrow>
   sorted_wrt (\<lambda>a b. f_le (Revenue_per_Seat (snd b)) (Revenue_per_Seat (snd a)))
     (foldr insort_desc xs [])"
proof (induction xs)
  case Nil
  then show ?case by simp
next
  case (Cons x xs)
  have "set (foldr insort_desc xs []) = set xs"
    using mset_foldr_insort_desc [of xs] by (metis set_mset_mset)
  with Cons show ?case
    by (auto intro!: sorted_insort_desc)
qed

lemma sorted_numbers_then_nan:
  assumes "\<forall>y \<in> set xs. Revenue_per_Seat (snd y) \<noteq> NaN"
  shows "sorted_wrt descending
           (foldr insort_desc xs [] @ filter (\<lambda>r. isna (Revenue_per_Seat (snd r))) df)"
proof -
  have "sorted_wrt (\<lambda>a b. f_le (Revenue_per_Seat (snd b)) (Revenue_per_Seat (snd a)))
          (foldr insort_desc xs [])"
    using assms by (rule sorted_foldr_insort_desc)
  then have a: "sorted_wrt descending (foldr insort_desc xs [])"
    by (rule sorted_wrt_mono_rel [rotated]) (simp add: descending_def)
  have b: "sorted_wrt descending (filter (\<lambda>r. isna (Revenue_per_Seat (snd r))) df)"
    by (induction df) (auto simp: descending_def)
  from a b show ?thesis
    by (simp add: sorted_wrt_append descending_def)
qed

lemma sorts_ties_kept: "sorts_by_revenue_per_seat sort_ties_kept"
proof -
  have "mset (sort_ties_kept df) = mset df" for df
    by (simp add: sort_ties_kept_def mset_foldr_insort_desc)
  moreover have "sorted_wrt descending (sort_ties_kept df)" for df
    unfolding sort_ties_kept_def
    by (rule sorted_numbers_then_nan) (simp add: isna_def)
  ultimately show ?thesis
    by (simp add: sorts_by_revenue_per_seat_def)
qed

lemma sorts_ties_reversed: "sorts_by_revenue_per_seat sort_ties_reversed"
proof -
  have "mset (sort_ties_reversed df) = mset df" for df
    by (simp add: sort_ties_reversed_def mset_foldr_insort_desc)
  moreover have "sorted_wrt descending (sort_ties_reversed df)" for df
    unfolding sort_ties_reversed_def
    by (rule sorted_numbers_then_nan) (simp add: isna_def)
  ultimately show ?thesis
    by (simp add: sorts_by_revenue_per_seat_def)
qed

lemma sorts_mset: "sorts_by_revenue_per_seat sort_values \<Longrightarrow> mset (sort_values df) = mset df"
  by (simp add: sorts_by_revenue_per_seat_def)

lemma sorts_sorted:
  "sorts_by_revenue_per_seat sort_values \<Longrightarrow> sorted_wrt descending (sort_values df)"
  by (simp add: sorts_by_revenue_per_seat_def)

lemma assign_slots_Morning_Peak:
  "Morning_Peak (assign_slots n xs ts) =
     Morning_Peak ts @ map fst (take (n div 4 - length (Morning_Peak ts))
        (filter (\<lambda>e. f_less (Fin 1.2) (peak_ratio (snd e))) xs))"
  by (induction xs arbitrary: ts) (auto simp: assign_slot_def Let_def take_Cons')

lemma assign_slots_Evening_Peak:
  "Evening_Peak (assign_slots n xs ts) =
     Evening_Peak ts @ map fst (drop (n div 4 - length (Morning_Peak ts))
        (filter (\<lambda>e. f_less (Fin 1.2) (peak_ratio (snd e))) xs))"
  by (induction xs arbitrary: ts) (auto simp: assign_slot_def Let_def drop_Cons')

lemma assign_slots_Midday:
  "Midday (assign_slots n xs ts) =
     Midday ts @ map fst
        (filter (\<lambda>e. \<not> f_less (Fin 1.2) (peak_ratio (snd e))
                    \<and> f_less (Fin 1.1) (peak_ratio (snd e))) xs)"
  by (induction xs arbitrary: ts) (auto simp: assign_slot_def Let_def)

lemma assign_slots_Off_Peak:
  "Off_Peak (assign_slots n xs ts) =
     Off_Peak ts @ map fst
        (filter (\<lambda>e. \<not> f_less (Fin 1.2) (peak_ratio (snd e))
                    \<and> \<not> f_less (Fin 1.1) (peak_ratio (snd e))) xs)"
  by (induction xs arbitrary: ts) (auto simp: assign_slot_def Let_def)

lemma assign_slots_mset:
  "mset (Morning_Peak (assign_slots n xs ts)) + mset (Midday (assign_slots n xs ts))
     + mset (Evening_Peak (assign_slots n xs ts)) + mset (Off_Peak (assign_slots n xs ts))
   = mset (Morning_Peak ts) + mset (Midday ts) + mset (Evening_Peak ts) + mset (Off_Peak ts)
     + mset (map fst xs)"
  by (induction xs arbitrary: ts) (auto simp: assign_slot_def Let_def)

lemma optimize_peak_scheduling_Inr:
  assumes "sorts_by_revenue_per_seat sort_values"
    and "optimize_peak_scheduling sort_values allocation pricing = Inr ts"
  obtains revenue_analysis where
    "analyze_revenue_potential allocation pricing = Inr revenue_analysis"
    "revenue_analysis \<noteq> []"
    "ts = assign_slots (length revenue_analysis) (sort_values revenue_analysis) empty_slots"
proof -
  from assms(2) obtain ra where ra: "analyze_revenue_potential allocation pricing = Inr ra"
    by (auto simp: optimize_peak_scheduling_def split: sum.splits)
  have "length (sort_values ra) = length ra"
    using sorts_mset [OF assms(1), of ra] by (metis size_mset)
  with assms(2) ra have "ra \<noteq> []"
    "ts = assign_slots (length ra) (sort_values ra) empty_slots"
    by (auto simp: optimize_peak_scheduling_def Let_def split: if_splits)
  with ra that show thesis by blast
qed

lemma scenario_schedule:
  "optimize_peak_scheduling sort_ties_kept scenario_allocation scenario_pricing
     = Inr \<lparr> Morning_Peak = [], Midday = [], Evening_Peak = [''J'', ''Y''], Off_Peak = [] \<rparr>"
  by (simp add: optimize_peak_scheduling_def scenario_analysis)
     (simp add: scenario_table_def sort_ties_kept_def isna_def assign_slot_def
        peak_ratio_def np_div_def empty_slots_def Let_def)

text \<open>
  C6. Whenever \<open>optimize_peak_scheduling\<close> returns, the four lists together hold every
  class of the allocation exactly once: no class is in two lists or twice in one, and the
  union of the lists is the set of allocated classes. This holds whatever the sort does
  with rows of equal key.
\<close>

theorem time_slots_partition:
  assumes "sorts_by_revenue_per_seat sort_values"
    and "optimize_peak_scheduling sort_values allocation pricing = Inr ts"
    and "distinct (map fst allocation)"
  shows "distinct (Morning_Peak ts @ Midday ts @ Evening_Peak ts @ Off_Peak ts)
       \<and> set (Morning_Peak ts) \<union> set (Midday ts) \<union> set (Evening_Peak ts) \<union> set (Off_Peak ts)
           = fst ` set allocation"
proof -
  from assms(1,2) obtain ra where
    ra: "analyze_revenue_potential allocation pricing = Inr ra" and
    ts: "ts = assign_slots (length ra) (sort_values ra) empty_slots"
    by (rule optimize_peak_scheduling_Inr)
  from ra have keys: "map fst ra = map fst allocation"
    by (simp add: analyze_revenue_potential_def analyze_classes_keys)
  have "mset (Morning_Peak ts @ Midday ts @ Evening_Peak ts @ Off_Peak ts)
          = mset (map fst (sort_values ra))"
    using assign_slots_mset [of "length ra" "sort_values ra" empty_slots]
    by (simp add: ts empty_slots_def ac_simps)
  also have "\<dots> = mset (map fst ra)"
    by (simp add: sorts_mset [OF assms(1)])
  finally have m: "mset (Morning_Peak ts @ Midday ts @ Evening_Peak ts @ Off_Peak ts)
                     = mset (map fst allocation)"
    by (simp add: keys)
  from m assms(3) have "distinct (Morning_Peak ts @ Midday ts @ Evening_Peak ts @ Off_Peak ts)"
    by (metis mset_eq_imp_distinct_iff)
  moreover from m have "set (Morning_Peak ts @ Midday ts @ Evening_Peak ts @ Off_Peak ts)
                          = set (map fst allocation)"
    by (rule mset_eq_setD)
  ultimately show ?thesis by (simp add: Un_assoc)
qed

theorem time_slots_partition_witness:
  "sorts_by_revenue_per_seat sort_ties_kept
   \<and> optimize_peak_scheduling sort_ties_kept scenario_allocation scenario_pricing
     = Inr \<lparr> Morning_Peak = [], Midday = [], Evening_Peak = [''J'', ''Y''], Off_Peak = [] \<rparr>
   \<and> distinct (map fst scenario_allocation)
   \<and> distinct ([] @ [] @ [''J'', ''Y''] @ ([] :: string list))
   \<and> set [] \<union> set [] \<union> set [''J'', ''Y''] \<union> set [] = fst ` set scenario_allocation"
proof -
  have h3: "distinct (map fst scenario_allocation)"
    by (simp add: scenario_allocation_def)
  from time_slots_partition [OF sorts_ties_kept scenario_schedule h3]
    sorts_ties_kept scenario_schedule h3
  show ?thesis by simp
qed

lemma fleet_analysis:
  "analyze_revenue_potential fleet_allocation fleet_pricing = Inr fleet_table"
  by (simp add: fleet_allocation_def fleet_pricing_def fleet_table_def
        analyze_revenue_potential_def class_data_def revenue_scenarios_def np_div_def Let_def)

lemma fleet_sorted:
  "sort_ties_kept fleet_table = rev fleet_table"
  by (simp add: fleet_table_def sort_ties_kept_def isna_def)

lemma fleet_schedule:
  "optimize_peak_scheduling sort_ties_kept fleet_allocation fleet_pricing
     = Inr \<lparr> Morning_Peak = [''A''], Midday = [''C''], Evening_Peak = [''B''], Off_Peak = [''D''] \<rparr>"
  by (simp add: optimize_peak_scheduling_def fleet_analysis Let_def fleet_sorted)
     (simp add: fleet_table_def assign_slot_def peak_ratio_def np_div_def empty_slots_def Let_def)

lemma ratio_bands:
  fixes x :: real
  shows "f_less (Fin 1.2) (Fin x) \<longleftrightarrow> 1.2 < x"
    and "\<not> f_less (Fin 1.2) (Fin x) \<and> f_less (Fin 1.1) (Fin x) \<longleftrightarrow> 1.1 < x \<and> x \<le> 1.2"
    and "\<not> f_less (Fin 1.2) (Fin x) \<and> \<not> f_less (Fin 1.1) (Fin x) \<longleftrightarrow> x \<le> 1.1"
  by auto

text \<open>
  C4. The assignment is one pass over the sorted classes, decided by
  \<open>peak_ratio = Peak_Revenue / Off_Peak_Revenue\<close> (all off-peak revenues being
  non-zero, so that the ratio is a number). The classes with a ratio above 1.2 fill
  \<open>Morning_Peak\<close> until it holds \<open>total_classes div 4\<close> of them, in sorted order, and
  the later ones go to \<open>Evening_Peak\<close>; the classes with \<open>1.1 < ratio \<le> 1.2\<close> are
  \<open>Midday\<close>, and those with \<open>ratio \<le> 1.1\<close> are \<open>Off_Peak\<close>. The sorted order is
  the one that the sort returns, whatever it does with rows of equal key.
\<close>

theorem greedy_time_slots:
  assumes "sorts_by_revenue_per_seat sort_values"
    and "optimize_peak_scheduling sort_values allocation pricing = Inr ts"
    and "analyze_revenue_potential allocation pricing = Inr revenue_analysis"
    and "\<forall>(c, row) \<in> set revenue_analysis. Off_Peak_Revenue row \<noteq> 0"
  shows "Morning_Peak ts =
           map fst (take (length revenue_analysis div 4)
             (filter (\<lambda>e. 1.2 < Peak_Revenue (snd e) / Off_Peak_Revenue (snd e))
                (sort_values revenue_analysis)))
       \<and> Evening_Peak ts =
           map fst (drop (length revenue_analysis div 4)
             (filter (\<lambda>e. 1.2 < Peak_Revenue (snd e) / Off_Peak_Revenue (snd e))
                (sort_values revenue_analysis)))
       \<and> Midday ts =
           map fst (filter (\<lambda>e. 1.1 < Peak_Revenue (snd e) / Off_Peak_Revenue (snd e)
                              \<and> Peak_Revenue (snd e) / Off_Peak_Revenue (snd e) \<le> 1.2)
             (sort_values revenue_analysis))
       \<and> Off_Peak ts =
           map fst (filter (\<lambda>e. Peak_Revenue (snd e) / Off_Peak_Revenue (snd e) \<le> 1.1)
             (sort_values revenue_analysis))"
proof -
  let ?order = "sort_values revenue_analysis"
  from assms(1,2,3) have ts: "ts = assign_slots (length revenue_analysis) ?order empty_slots"
    by (auto elim: optimize_peak_scheduling_Inr)
  have "set ?order = set revenue_analysis"
    using sorts_mset [OF assms(1), of revenue_analysis] by (rule mset_eq_setD)
  with assms(4) have ratio:
    "peak_ratio (snd e) = Fin (Peak_Revenue (snd e) / Off_Peak_Revenue (snd e))"
    if "e \<in> set ?order" for e
    using that by (auto simp: peak_ratio_def np_div_def)
  have hi: "filter (\<lambda>e. f_less (Fin 1.2) (peak_ratio (snd e))) ?order
          = filter (\<lambda>e. 1.2 < Peak_Revenue (snd e) / Off_Peak_Revenue (snd e)) ?order"
    by (rule filter_cong) (simp_all only: ratio ratio_bands(1))
  have mid: "filter (\<lambda>e. \<not> f_less (Fin 1.2) (peak_ratio (snd e))
                        \<and> f_less (Fin 1.1) (peak_ratio (snd e))) ?order
          = filter (\<lambda>e. 1.1 < Peak_Revenue (snd e) / Off_Peak_Revenue (snd e)
                       \<and> Peak_Revenue (snd e) / Off_Peak_Revenue (snd e) \<le> 1.2) ?order"
    by (rule filter_cong) (simp_all only: ratio ratio_bands(2))
  have off: "filter (\<lambda>e. \<not> f_less (Fin 1.2) (peak_ratio (snd e))
                        \<and> \<not> f_less (Fin 1.1) (peak_ratio (snd e))) ?order
          = filter (\<lambda>e. Peak_Revenue (snd e) / Off_Peak_Revenue (snd e) \<le> 1.1) ?order"
    by (rule filter_cong) (simp_all only: ratio ratio_bands(3))
  show ?thesis
    unfolding ts assign_slots_Morning_Peak assign_slots_Evening_Peak assign_slots_Midday
      assign_slots_Off_Peak hi mid off
    by (simp add: empty_slots_def)
qed

theorem greedy_time_slots_witness:
  "sorts_by_revenue_per_seat sort_ties_kept
   \<and> optimize_peak_scheduling sort_ties_kept fleet_allocation fleet_pricing
     = Inr \<lparr> Morning_Peak = [''A''], Midday = [''C''], Evening_Peak = [''B''], Off_Peak = [''D''] \<rparr>
   \<and> analyze_revenue_potential fleet_allocation fleet_pricing = Inr fleet_table
   \<and> list_all (\<lambda>e. Off_Peak_Revenue (snd e) \<noteq> 0) fleet_table
   \<and> [''A''] = map fst (take (length fleet_table div 4)
             (filter (\<lambda>e. 1.2 < Peak_Revenue (snd e) / Off_Peak_Revenue (snd e))
                (sort_ties_kept fleet_table)))
   \<and> [''B''] = map fst (drop (length fleet_table div 4)
             (filter (\<lambda>e. 1.2 < Peak_Revenue (snd e) / Off_Peak_Revenue (snd e))
                (sort_ties_kept fleet_table)))
   \<and> [''C''] = map fst (filter (\<lambda>e. 1.1 < Peak_Revenue (snd e) / Off_Peak_Revenue (snd e)
                              \<and> Peak_Revenue (snd e) / Off_Peak_Revenue (snd e) \<le> 1.2)
             (sort_ties_kept fleet_table))
   \<and> [''D''] = map fst (filter (\<lambda>e. Peak_Revenue (snd e) / Off_Peak_Revenue (snd e) \<le> 1.1)
             (sort_ties_kept fleet_table))"
proof -
  have h4: "\<forall>(c, row) \<in> set fleet_table. Off_Peak_Revenue row \<noteq> 0"
    by (simp add: fleet_table_def)
  have h4': "list_all (\<lambda>e. Off_Peak_Revenue (snd e) \<noteq> 0) fleet_table"
    by (simp add: fleet_table_def)
  from greedy_time_slots [OF sorts_ties_kept fleet_schedule fleet_analysis h4]
    sorts_ties_kept fleet_schedule fleet_analysis h4'
  show ?thesis by simp
qed

lemma subseq_take_filter: "subseq (map fst (take n (filter P xs))) (map fst xs)"
proof -
  have "subseq (take n (filter P xs)) (take n (filter P xs) @ drop n (filter P xs))"
    by (rule subseq_rev_drop_many) simp
  then have "subseq (take n (filter P xs)) (filter P xs)" by simp
  then have "subseq (take n (filter P xs)) xs"
    using subseq_filter_left [of P xs] by (rule subseq_order.order_trans)
  then show ?thesis by (rule subseq_map)
qed

lemma subseq_drop_filter: "subseq (map fst (drop n (filter P xs))) (map fst xs)"
proof -
  have "subseq (drop n (filter P xs)) (take n (filter P xs) @ drop n (filter P xs))"
    by (rule subseq_drop_many) simp
  then have "subseq (drop n (filter P xs)) (filter P xs)" by simp
  then have "subseq (drop n (filter P xs)) xs"
    using subseq_filter_left [of P xs] by (rule subseq_order.order_trans)
  then show ?thesis by (rule subseq_map)
qed

lemma tie_table:
  "analyze_revenue_potential [(''A'', 10), (''B'', 10)] tie_pricing
     = Inr [(''A'', revenue_scenarios 10 (pricing_Y\<lparr> Booking_Class := ''A'' \<rparr>)),
            (''B'', revenue_scenarios 10 (pricing_Y\<lparr> Booking_Class := ''B'' \<rparr>))]"
  by (simp add: analyze_revenue_potential_def class_data_def tie_pricing_def pricing_Y_def)

text \<open>
  C5, as the code has it. The bucket assignment runs over the rows of the revenue table
  in the order that the sort returns: sorted by \<open>Revenue_per_Seat\<close>, descending, with
  the rows without a number last. The sort has no second key, so the identifier orders
  nothing: the classes of equal \<open>Revenue_per_Seat\<close> come in the order that the sort
  leaves them in. Every time-slot list holds its classes in the order of the sorted
  table, so the lists are fixed up to the order of such classes.
\<close>

theorem scheduling_order:
  assumes "sorts_by_revenue_per_seat sort_values"
    and "optimize_peak_scheduling sort_values allocation pricing = Inr ts"
  shows "\<exists>revenue_analysis.
           analyze_revenue_potential allocation pricing = Inr revenue_analysis
         \<and> ts = assign_slots (length revenue_analysis) (sort_values revenue_analysis)
                  empty_slots
         \<and> mset (sort_values revenue_analysis) = mset revenue_analysis
         \<and> sorted_wrt descending (sort_values revenue_analysis)
         \<and> subseq (Morning_Peak ts) (map fst (sort_values revenue_analysis))
         \<and> subseq (Midday ts) (map fst (sort_values revenue_analysis))
         \<and> subseq (Evening_Peak ts) (map fst (sort_values revenue_analysis))
         \<and> subseq (Off_Peak ts) (map fst (sort_values revenue_analysis))"
proof -
  from assms obtain ra where
    ra: "analyze_revenue_potential allocation pricing = Inr ra" and
    ts: "ts = assign_slots (length ra) (sort_values ra) empty_slots"
    by (rule optimize_peak_scheduling_Inr)
  have "subseq (Morning_Peak ts) (map fst (sort_values ra))"
    "subseq (Evening_Peak ts) (map fst (sort_values ra))"
    unfolding ts assign_slots_Morning_Peak assign_slots_Evening_Peak
    by (simp_all add: empty_slots_def subseq_take_filter subseq_drop_filter)
  moreover have "subseq (Midday ts) (map fst (sort_values ra))"
    "subseq (Off_Peak ts) (map fst (sort_values ra))"
    unfolding ts assign_slots_Midday assign_slots_Off_Peak
    by (simp_all add: empty_slots_def subseq_map)
  ultimately show ?thesis
    using ra ts sorts_mset [OF assms(1), of ra] sorts_sorted [OF assms(1), of ra] by blast
qed

theorem scheduling_order_witness:
  "sorts_by_revenue_per_seat sort_ties_reversed
   \<and> optimize_peak_scheduling sort_ties_reversed [(''A'', 10), (''B'', 10)] tie_pricing
     = Inr \<lparr> Morning_Peak = [], Midday = [], Evening_Peak = [''B'', ''A''], Off_Peak = [] \<rparr>
   \<and> (\<exists>revenue_analysis.
        analyze_revenue_potential [(''A'', 10), (''B'', 10)] tie_pricing = Inr revenue_analysis
      \<and> mset (sort_ties_reversed revenue_analysis) = mset revenue_analysis
      \<and> sorted_wrt descending (sort_ties_reversed revenue_analysis)
      \<and> subseq [''B'', ''A''] (map fst (sort_ties_reversed revenue_analysis)))"
proof -
  have h2: "optimize_peak_scheduling sort_ties_reversed [(''A'', 10), (''B'', 10)] tie_pricing
     = Inr \<lparr> Morning_Peak = [], Midday = [], Evening_Peak = [''B'', ''A''], Off_Peak = [] \<rparr>"
    by (simp add: optimize_peak_scheduling_def tie_table)
       (simp add: pricing_Y_def revenue_scenarios_def np_div_def Let_def
          sort_ties_reversed_def isna_def assign_slot_def peak_ratio_def empty_slots_def)
  from scheduling_order [OF sorts_ties_reversed h2] sorts_ties_reversed h2
  show ?thesis by auto
qed

text \<open>
  C5, as stated, fails. Classes A and B have the same revenue per seat (180), and both
  sorts below order by revenue per seat, descending. On the allocation that names A
  first, one of them schedules A before B and the other B before A: the order of B and A
  is not fixed by the code, and the identifier does not decide it. On the allocation
  that names B first, the first sort schedules B before A.
\<close>

theorem tie_order_counterexample:
  "Revenue_per_Seat (revenue_scenarios 10 (pricing_Y\<lparr> Booking_Class := ''A'' \<rparr>)) = Fin 180
   \<and> Revenue_per_Seat (revenue_scenarios 10 (pricing_Y\<lparr> Booking_Class := ''B'' \<rparr>)) = Fin 180
   \<and> sorts_by_revenue_per_seat sort_ties_kept
   \<and> sorts_by_revenue_per_seat sort_ties_reversed
   \<and> optimize_peak_scheduling sort_ties_kept [(''A'', 10), (''B'', 10)] tie_pricing
     = Inr \<lparr> Morning_Peak = [], Midday = [], Evening_Peak = [''A'', ''B''], Off_Peak = [] \<rparr>
   \<and> optimize_peak_scheduling sort_ties_reversed [(''A'', 10), (''B'', 10)] tie_pricing
     = Inr \<lparr> Morning_Peak = [], Midday = [], Evening_Peak = [''B'', ''A''], Off_Peak = [] \<rparr>
   \<and> optimize_peak_scheduling sort_ties_kept [(''B'', 10), (''A'', 10)] tie_pricing
     = Inr \<lparr> Morning_Peak = [], Midday = [], Evening_Peak = [''B'', ''A''], Off_Peak = [] \<rparr>"
proof -
  have "Revenue_per_Seat (revenue_scenarios 10 (pricing_Y\<lparr> Booking_Class := ''A'' \<rparr>)) = Fin 180"
    "Revenue_per_Seat (revenue_scenarios 10 (pricing_Y\<lparr> Booking_Class := ''B'' \<rparr>)) = Fin 180"
    by (simp_all add: pricing_Y_def revenue_scenarios_def np_div_def Let_def)
  moreover have
    "optimize_peak_scheduling sort_ties_kept [(''A'', 10), (''B'', 10)] tie_pricing
       = Inr \<lparr> Morning_Peak = [], Midday = [], Evening_Peak = [''A'', ''B''], Off_Peak = [] \<rparr>"
    "optimize_peak_scheduling sort_ties_reversed [(''A'', 10), (''B'', 10)] tie_pricing
       = Inr \<lparr> Morning_Peak = [], Midday = [], Evening_Peak = [''B'', ''A''], Off_Peak = [] \<rparr>"
    "optimize_peak_scheduling sort_ties_kept [(''B'', 10), (''A'', 10)] tie_pricing
       = Inr \<lparr> Morning_Peak = [], Midday = [], Evening_Peak = [''B'', ''A''], Off_Peak = [] \<rparr>"
    by (simp_all add: optimize_peak_scheduling_def analyze_revenue_potential_def class_data_def
          tie_pricing_def pricing_Y_def revenue_scenarios_def np_div_def Let_def
          sort_ties_kept_def sort_ties_reversed_def isna_def assign_slot_def peak_ratio_def
          empty_slots_def)
  ultimately show ?thesis
    using sorts_ties_kept sorts_ties_reversed by simp
qed

section \<open>Targets\<close>

lemma risk_rates_foldl:
  "distinct (map fst acc) \<Longrightarrow>
   distinct (map fst (foldl (\<lambda>d r. AList.update (Booking_Class r) (Risk_Factor r) d) acc pricing))
   \<and> fst ` set (foldl (\<lambda>d r. AList.update (Booking_Class r) (Risk_Factor r) d) acc pricing)
       = fst ` set acc \<union> Booking_Class ` set pricing"
proof (induction pricing arbitrary: acc)
  case Nil
  then show ?case by simp
next
  case (Cons r rest)
  have d: "distinct (map fst (AList.update (Booking_Class r) (Risk_Factor r) acc))"
    using Cons.prems by (rule distinct_update)
  from Cons.IH [OF d] show ?case
    by (auto simp: dom_update)
qed

lemma length_risk_rates_dict:
  "length (risk_rates_dict pricing) = card (Booking_Class ` set pricing)"
proof -
  from risk_rates_foldl [of "[]" pricing]
  have d: "distinct (map fst (risk_rates_dict pricing))"
    and s: "fst ` set (risk_rates_dict pricing) = Booking_Class ` set pricing"
    by (simp_all add: risk_rates_dict_def)
  from d have "card (set (map fst (risk_rates_dict pricing))) = length (map fst (risk_rates_dict pricing))"
    by (rule distinct_card)
  with s show ?thesis by simp
qed

lemma analyze_current_performance_Inr:
  assumes "analyze_current_performance revenue_analysis allocation pricing = Inr current"
  shows "total_revenue current = sum_list (map (\<lambda>r. Base_Revenue (snd r)) revenue_analysis)"
    and "risk_rates current = risk_rates_dict pricing"
    and "pricing \<noteq> []"
    and "class_performance current = map (\<lambda>r. (fst r, Revenue_per_Seat (snd r))) revenue_analysis"
  using assms
  by (auto simp: analyze_current_performance_def Let_def py_div_def split: if_splits)

lemma tier_targets_result:
  "class_type \<in> {''premium'', ''mid_tier'', ''economy''} \<Longrightarrow>
   (members = [] \<longrightarrow> tier_targets class_type members = Inl ZeroDivisionError)
   \<and> (members \<noteq> [] \<longrightarrow> (\<exists>t. tier_targets class_type members = Inr t))"
  by (auto simp: tier_targets_def f_div_len_def get_class_actions_def Let_def)

lemma set_class_targets_result:
  "(high_yield current = [] \<or> mid_yield current = [] \<or> low_yield current = []
      \<longrightarrow> set_class_targets current = Inl ZeroDivisionError)
   \<and> (high_yield current \<noteq> [] \<and> mid_yield current \<noteq> [] \<and> low_yield current \<noteq> []
      \<longrightarrow> (\<exists>ts. set_class_targets current = Inr ts))"
proof -
  have p: "(high_yield current = [] \<longrightarrow> tier_targets ''premium'' (high_yield current) = Inl ZeroDivisionError)
        \<and> (high_yield current \<noteq> [] \<longrightarrow> (\<exists>t. tier_targets ''premium'' (high_yield current) = Inr t))"
    by (rule tier_targets_result) simp
  have m: "(mid_yield current = [] \<longrightarrow> tier_targets ''mid_tier'' (mid_yield current) = Inl ZeroDivisionError)
        \<and> (mid_yield current \<noteq> [] \<longrightarrow> (\<exists>t. tier_targets ''mid_tier'' (mid_yield current) = Inr t))"
    by (rule tier_targets_result) simp
  have e: "(low_yield current = [] \<longrightarrow> tier_targets ''economy'' (low_yield current) = Inl ZeroDivisionError)
        \<and> (low_yield current \<noteq> [] \<longrightarrow> (\<exists>t. tier_targets ''economy'' (low_yield current) = Inr t))"
    by (rule tier_targets_result) simp
  from p m e show ?thesis
    by (cases "high_yield current = []"; cases "mid_yield current = []";
        cases "low_yield current = []") (auto simp: set_class_targets_def)
qed

lemma set_risk_targets_result:
  assumes "risk_rates current \<noteq> []"
  shows "(length (risk_rates current) = 7 \<longrightarrow> set_risk_targets current = Inl ZeroDivisionError)
       \<and> (length (risk_rates current) \<noteq> 7 \<longrightarrow>
            set_risk_targets current =
              Inr \<lparr> current_avg_risk =
                      sum_list (map snd (risk_rates current)) / real (length (risk_rates current)),
                    target_avg_risk =
                      sum_list (map snd (risk_rates current)) / real (length (risk_rates current))
                        * 0.85,
                    by_class_type =
                      [(''premium'',
                          \<lparr> current_risk =
                              risk_sum (\<lambda>k. k \<in> {''J'', ''Y''}) (risk_rates current) / 2,
                            target_risk = 0.05 \<rparr>),
                       (''mid_tier'',
                          \<lparr> current_risk =
                              risk_sum (\<lambda>k. k \<in> {''C'', ''B'', ''D'', ''W'', ''H''})
                                (risk_rates current) / 5,
                            target_risk = 0.10 \<rparr>),
                       (''economy'',
                          \<lparr> current_risk =
                              risk_sum (\<lambda>k. k \<notin> {''J'', ''Y'', ''C'', ''B'', ''D'', ''W'', ''H''})
                                (risk_rates current)
                                / (real (length (risk_rates current)) - 7),
                            target_risk = 0.15 \<rparr>)] \<rparr>)"
  using assms by (auto simp: set_risk_targets_def Let_def py_div_def)

lemma regional_analysis:
  "analyze_revenue_potential regional_allocation regional_pricing = Inr regional_table"
  by (simp add: regional_allocation_def regional_pricing_def regional_table_def
        analyze_revenue_potential_def class_data_def revenue_scenarios_def np_div_def Let_def)

lemma regional_performance:
  "analyze_current_performance regional_table regional_allocation regional_pricing
     = Inr regional_metrics"
  by (simp add: analyze_current_performance_def regional_allocation_def regional_pricing_def
        regional_table_def regional_metrics_def py_div_def risk_rates_dict_def Let_def)

lemma scenario_performance:
  "analyze_current_performance scenario_table scenario_allocation scenario_pricing
     = Inr scenario_metrics"
  by (simp add: analyze_current_performance_def scenario_defs scenario_metrics_def
        py_div_def risk_rates_dict_def Let_def)

lemma calculate_revenue_targets_Inr:
  assumes "calculate_revenue_targets revenue_analysis allocation pricing = Inr t"
  obtains current class_targets risk where
    "analyze_current_performance revenue_analysis allocation pricing = Inr current"
    "set_class_targets current = Inr class_targets"
    "set_risk_targets current = Inr risk"
    "overall (revenue_targets_of t) = set_overall_targets current"
    "by_class (revenue_targets_of t) = class_targets"
    "risk_targets_of t = risk"
  using assms
  by (auto simp: calculate_revenue_targets_def split: sum.splits)

lemmas targets_eval =
  calculate_revenue_targets_def set_class_targets_def high_yield_def mid_yield_def
  low_yield_def tier_targets_def f_div_len_def f_sum_def get_class_actions_def
  set_risk_targets_def risk_sum_def py_div_def Let_def

lemma regional_risk_targets:
  "map_sum id risk_targets_of
     (calculate_revenue_targets regional_table regional_allocation regional_pricing)
   = Inr \<lparr> current_avg_risk = 0.2,
            target_avg_risk = 0.17,
            by_class_type =
              [(''premium'', \<lparr> current_risk = 0, target_risk = 0.05 \<rparr>),
               (''mid_tier'', \<lparr> current_risk = 0, target_risk = 0.10 \<rparr>),
               (''economy'', \<lparr> current_risk = - 0.15, target_risk = 0.15 \<rparr>)] \<rparr>"
  by (simp add: regional_performance targets_eval) (simp add: regional_metrics_def)

lemma regional_targets:
  "\<exists>t. calculate_revenue_targets regional_table regional_allocation regional_pricing = Inr t"
  using regional_risk_targets
  by (cases "calculate_revenue_targets regional_table regional_allocation regional_pricing")
     auto

lemma scenario_targets:
  "calculate_revenue_targets scenario_table scenario_allocation scenario_pricing
     = Inl ZeroDivisionError"
  by (simp add: scenario_performance targets_eval) (simp add: scenario_metrics_def)

lemma seven_classes: "card (Booking_Class ` set seven_pricing) = 7"
  by (simp add: seven_pricing_def)

lemma seven_performance:
  "analyze_current_performance scenario_table scenario_allocation seven_pricing
     = Inr (scenario_metrics\<lparr> risk_rates := risk_rates_dict seven_pricing \<rparr>)"
  by (simp add: analyze_current_performance_def scenario_defs scenario_metrics_def
        seven_pricing_def py_div_def Let_def)

lemma single_performance:
  "analyze_current_performance scenario_table scenario_allocation [pricing_Y]
     = Inr (scenario_metrics\<lparr> risk_rates := [(''Y'', 0.1)] \<rparr>)"
  by (simp add: analyze_current_performance_def scenario_defs scenario_metrics_def
        py_div_def risk_rates_dict_def Let_def)

text \<open>
  C2, as the code has it. Whenever \<open>calculate_revenue_targets\<close> returns, its overall
  target has \<open>current_daily_revenue\<close> equal to the sum of \<open>Base_Revenue\<close> over the
  table and \<open>target_daily_revenue\<close> equal to that sum times 1.15; the same holds of
  \<open>_set_overall_targets\<close> on the metrics of \<open>analyze_current_performance\<close>. For the
  scenario (Y: 100 seats, J: 20 seats) these metrics have \<open>total_revenue = 27500\<close> and
  the overall targets have \<open>target_daily_revenue = 31625\<close>.
\<close>

theorem overall_target_revenue:
  "(calculate_revenue_targets revenue_analysis allocation pricing = Inr t \<longrightarrow>
      current_daily_revenue (overall (revenue_targets_of t))
        = sum_list (map (\<lambda>r. Base_Revenue (snd r)) revenue_analysis)
    \<and> target_daily_revenue (overall (revenue_targets_of t))
        = sum_list (map (\<lambda>r. Base_Revenue (snd r)) revenue_analysis) * 1.15)
   \<and> (analyze_current_performance revenue_analysis allocation pricing = Inr current \<longrightarrow>
        total_revenue current = sum_list (map (\<lambda>r. Base_Revenue (snd r)) revenue_analysis)
      \<and> target_daily_revenue (set_overall_targets current)
          = sum_list (map (\<lambda>r. Base_Revenue (snd r)) revenue_analysis) * 1.15)
   \<and> analyze_revenue_potential scenario_allocation scenario_pricing = Inr scenario_table
   \<and> analyze_current_performance scenario_table scenario_allocation scenario_pricing
        = Inr scenario_metrics
   \<and> total_revenue scenario_metrics = 27500
   \<and> target_daily_revenue (set_overall_targets scenario_metrics) = 31625"
proof -
  have a: "target_daily_revenue (set_overall_targets c) = total_revenue c * 1.15"
    and b: "current_daily_revenue (set_overall_targets c) = total_revenue c" for c
    by (simp_all add: set_overall_targets_def)
  have 1: "calculate_revenue_targets revenue_analysis allocation pricing = Inr t \<longrightarrow>
      current_daily_revenue (overall (revenue_targets_of t))
        = sum_list (map (\<lambda>r. Base_Revenue (snd r)) revenue_analysis)
    \<and> target_daily_revenue (overall (revenue_targets_of t))
        = sum_list (map (\<lambda>r. Base_Revenue (snd r)) revenue_analysis) * 1.15"
    by (auto elim!: calculate_revenue_targets_Inr
          simp: a b analyze_current_performance_Inr(1))
  have 2: "analyze_current_performance revenue_analysis allocation pricing = Inr current \<longrightarrow>
        total_revenue current = sum_list (map (\<lambda>r. Base_Revenue (snd r)) revenue_analysis)
      \<and> target_daily_revenue (set_overall_targets current)
          = sum_list (map (\<lambda>r. Base_Revenue (snd r)) revenue_analysis) * 1.15"
    by (simp add: a analyze_current_performance_Inr(1))
  have 3: "total_revenue scenario_metrics = 27500"
    "target_daily_revenue (set_overall_targets scenario_metrics) = 31625"
    by (simp_all add: a scenario_metrics_def)
  from 1 2 3 scenario_analysis scenario_performance show ?thesis by blast
qed

theorem overall_target_revenue_witness:
  "\<exists>t. calculate_revenue_targets regional_table regional_allocation regional_pricing = Inr t
     \<and> current_daily_revenue (overall (revenue_targets_of t)) = 4600
     \<and> target_daily_revenue (overall (revenue_targets_of t)) = 5290"
proof -
  from regional_targets obtain t where
    t: "calculate_revenue_targets regional_table regional_allocation regional_pricing = Inr t"
    by blast
  have "sum_list (map (\<lambda>r. Base_Revenue (snd r)) regional_table) = 4600"
    by (simp add: regional_table_def)
  with overall_target_revenue [of regional_table regional_allocation regional_pricing t] t
  show ?thesis by auto
qed

text \<open>
  C2, as stated, fails on its own scenario: \<open>calculate_revenue_targets\<close> returns no
  targets there. The average revenue per seat is 27500 / 120, Y (180) is below 0.8 times
  it and J (475) is above 1.2 times it, so the mid tier is empty and its average divides
  by zero.
\<close>

theorem scenario_targets_counterexample:
  "analyze_revenue_potential scenario_allocation scenario_pricing = Inr scenario_table
   \<and> calculate_revenue_targets scenario_table scenario_allocation scenario_pricing
       = Inl ZeroDivisionError"
  using scenario_analysis scenario_targets by simp

text \<open>
  C9, as the code has it. There is no EmptyGroupError and no "no data" result. With the
  metrics of \<open>analyze_current_performance\<close>: if one of the three yield tiers is empty,
  \<open>calculate_revenue_targets\<close> fails with ZeroDivisionError, and so it does when the
  pricing has exactly 7 classes (the economy group of the risk targets is divided by
  \<open>n - 7\<close>); otherwise it returns, and a premium or mid-tier class-code group without
  any priced class is reported with the current risk 0.
\<close>

theorem empty_groups:
  assumes "analyze_current_performance revenue_analysis allocation pricing = Inr current"
  shows "(high_yield current = [] \<or> mid_yield current = [] \<or> low_yield current = [] \<longrightarrow>
            calculate_revenue_targets revenue_analysis allocation pricing
              = Inl ZeroDivisionError)
       \<and> (card (Booking_Class ` set pricing) = 7 \<longrightarrow>
            calculate_revenue_targets revenue_analysis allocation pricing
              = Inl ZeroDivisionError)
       \<and> (high_yield current \<noteq> [] \<and> mid_yield current \<noteq> [] \<and> low_yield current \<noteq> []
            \<and> card (Booking_Class ` set pricing) \<noteq> 7 \<longrightarrow>
            (\<exists>t. calculate_revenue_targets revenue_analysis allocation pricing = Inr t
               \<and> (Booking_Class ` set pricing \<inter> {''J'', ''Y''} = {} \<longrightarrow>
                    map_of (by_class_type (risk_targets_of t)) ''premium''
                      = Some \<lparr> current_risk = 0, target_risk = 0.05 \<rparr>)
               \<and> (Booking_Class ` set pricing \<inter> {''C'', ''B'', ''D'', ''W'', ''H''} = {} \<longrightarrow>
                    map_of (by_class_type (risk_targets_of t)) ''mid_tier''
                      = Some \<lparr> current_risk = 0, target_risk = 0.10 \<rparr>)))"
proof -
  note acp = analyze_current_performance_Inr [OF assms]
  have n: "length (risk_rates current) = card (Booking_Class ` set pricing)"
    by (simp add: acp(2) length_risk_rates_dict)
  have keys: "fst ` set (risk_rates current) = Booking_Class ` set pricing"
    using risk_rates_foldl [of "[]" pricing] by (simp add: acp(2) risk_rates_dict_def)
  from acp(3) have "card (Booking_Class ` set pricing) \<noteq> 0" by simp
  with n have ne: "risk_rates current \<noteq> []" by auto
  note risk = set_risk_targets_result [OF ne, unfolded n]
  note cls = set_class_targets_result [of current]
  have 1: "calculate_revenue_targets revenue_analysis allocation pricing = Inl ZeroDivisionError"
    if "high_yield current = [] \<or> mid_yield current = [] \<or> low_yield current = []"
    using that cls assms by (simp add: calculate_revenue_targets_def)
  have 2: "calculate_revenue_targets revenue_analysis allocation pricing = Inl ZeroDivisionError"
    if "card (Booking_Class ` set pricing) = 7"
  proof (cases "high_yield current = [] \<or> mid_yield current = [] \<or> low_yield current = []")
    case True
    then show ?thesis by (rule 1)
  next
    case False
    with cls obtain ts where "set_class_targets current = Inr ts" by auto
    with that risk assms show ?thesis by (simp add: calculate_revenue_targets_def)
  qed
  have empty_sum: "risk_sum (\<lambda>k. k \<in> G) (risk_rates current) = 0"
    if "Booking_Class ` set pricing \<inter> G = {}" for G
  proof -
    have "fst kv \<notin> G" if "kv \<in> set (risk_rates current)" for kv
    proof -
      from that have "fst kv \<in> fst ` set (risk_rates current)" by (rule imageI)
      with keys \<open>Booking_Class ` set pricing \<inter> G = {}\<close> show ?thesis by blast
    qed
    then have "filter (\<lambda>kv. fst kv \<in> G) (risk_rates current) = []"
      by (simp add: filter_empty_conv)
    then show ?thesis by (simp add: risk_sum_def)
  qed
  have 3: "\<exists>t. calculate_revenue_targets revenue_analysis allocation pricing = Inr t
               \<and> (Booking_Class ` set pricing \<inter> {''J'', ''Y''} = {} \<longrightarrow>
                    map_of (by_class_type (risk_targets_of t)) ''premium''
                      = Some \<lparr> current_risk = 0, target_risk = 0.05 \<rparr>)
               \<and> (Booking_Class ` set pricing \<inter> {''C'', ''B'', ''D'', ''W'', ''H''} = {} \<longrightarrow>
                    map_of (by_class_type (risk_targets_of t)) ''mid_tier''
                      = Some \<lparr> current_risk = 0, target_risk = 0.10 \<rparr>)"
    if "high_yield current \<noteq> [] \<and> mid_yield current \<noteq> [] \<and> low_yield current \<noteq> []"
      and "card (Booking_Class ` set pricing) \<noteq> 7"
  proof -
    from that(1) cls obtain ts where ts: "set_class_targets current = Inr ts" by auto
    from that(2) risk obtain rt where rt: "set_risk_targets current = Inr rt"
      and p: "map_of (by_class_type rt) ''premium''
               = Some \<lparr> current_risk = risk_sum (\<lambda>k. k \<in> {''J'', ''Y''}) (risk_rates current) / 2,
                        target_risk = 0.05 \<rparr>"
      and m: "map_of (by_class_type rt) ''mid_tier''
               = Some \<lparr> current_risk =
                          risk_sum (\<lambda>k. k \<in> {''C'', ''B'', ''D'', ''W'', ''H''}) (risk_rates current) / 5,
                        target_risk = 0.10 \<rparr>"
      by auto
    from assms ts rt have "calculate_revenue_targets revenue_analysis allocation pricing
        = Inr \<lparr> revenue_targets_of =
                  \<lparr> overall = set_overall_targets current, by_class = ts,
                    by_time = set_time_targets current \<rparr>,
                risk_targets_of = rt,
                occupancy_targets_of = set_occupancy_targets current \<rparr>"
      by (simp add: calculate_revenue_targets_def)
    moreover have "map_of (by_class_type rt) ''premium''
                     = Some \<lparr> current_risk = 0, target_risk = 0.05 \<rparr>"
      if h: "Booking_Class ` set pricing \<inter> {''J'', ''Y''} = {}"
      using p unfolding empty_sum [OF h] by simp
    moreover have "map_of (by_class_type rt) ''mid_tier''
                     = Some \<lparr> current_risk = 0, target_risk = 0.10 \<rparr>"
      if h: "Booking_Class ` set pricing \<inter> {''C'', ''B'', ''D'', ''W'', ''H''} = {}"
      using m unfolding empty_sum [OF h] by simp
    ultimately show ?thesis by simp
  qed
  from 1 2 3 show ?thesis by blast
qed

theorem empty_groups_witness:
  "analyze_current_performance scenario_table scenario_allocation scenario_pricing
     = Inr scenario_metrics
   \<and> mid_yield scenario_metrics = []
   \<and> calculate_revenue_targets scenario_table scenario_allocation scenario_pricing
       = Inl ZeroDivisionError
   \<and> analyze_current_performance regional_table regional_allocation regional_pricing
       = Inr regional_metrics
   \<and> (\<exists>t. calculate_revenue_targets regional_table regional_allocation regional_pricing = Inr t
        \<and> map_of (by_class_type (risk_targets_of t)) ''premium''
            = Some \<lparr> current_risk = 0, target_risk = 0.05 \<rparr>
        \<and> map_of (by_class_type (risk_targets_of t)) ''mid_tier''
            = Some \<lparr> current_risk = 0, target_risk = 0.10 \<rparr>)"
proof -
  have mid: "mid_yield scenario_metrics = []"
    by (simp add: mid_yield_def scenario_metrics_def)
  from empty_groups [OF scenario_performance] mid
  have fail: "calculate_revenue_targets scenario_table scenario_allocation scenario_pricing
                = Inl ZeroDivisionError"
    by blast
  have tiers: "high_yield regional_metrics \<noteq> [] \<and> mid_yield regional_metrics \<noteq> []
                 \<and> low_yield regional_metrics \<noteq> []"
    by (simp add: high_yield_def mid_yield_def low_yield_def regional_metrics_def)
  have n: "card (Booking_Class ` set regional_pricing) \<noteq> 7"
    by (simp add: regional_pricing_def)
  have p: "Booking_Class ` set regional_pricing \<inter> {''J'', ''Y''} = {}"
    and m: "Booking_Class ` set regional_pricing \<inter> {''C'', ''B'', ''D'', ''W'', ''H''} = {}"
    by (simp_all add: regional_pricing_def)
  from empty_groups [OF regional_performance] tiers n p m
  have "\<exists>t. calculate_revenue_targets regional_table regional_allocation regional_pricing = Inr t
        \<and> map_of (by_class_type (risk_targets_of t)) ''premium''
            = Some \<lparr> current_risk = 0, target_risk = 0.05 \<rparr>
        \<and> map_of (by_class_type (risk_targets_of t)) ''mid_tier''
            = Some \<lparr> current_risk = 0, target_risk = 0.10 \<rparr>"
    by blast
  with scenario_performance regional_performance mid fail show ?thesis by blast
qed

text \<open>
  C9, as stated, fails: on the scenario the mid tier is empty and the class targets raise
  the bare ZeroDivisionError; on the regional example no class is in the premium or
  mid-tier code group, and the call returns the averages 0 and 0 for them (and - 0.15
  for economy, the sum 0.6 divided by 3 - 7).
\<close>

theorem empty_groups_counterexample:
  "analyze_current_performance scenario_table scenario_allocation scenario_pricing
     = Inr scenario_metrics
   \<and> mid_yield scenario_metrics = []
   \<and> set_class_targets scenario_metrics = Inl ZeroDivisionError
   \<and> map_sum id risk_targets_of
       (calculate_revenue_targets regional_table regional_allocation regional_pricing)
     = Inr \<lparr> current_avg_risk = 0.2,
              target_avg_risk = 0.17,
              by_class_type =
                [(''premium'', \<lparr> current_risk = 0, target_risk = 0.05 \<rparr>),
                 (''mid_tier'', \<lparr> current_risk = 0, target_risk = 0.10 \<rparr>),
                 (''economy'', \<lparr> current_risk = - 0.15, target_risk = 0.15 \<rparr>)] \<rparr>"
proof -
  have "mid_yield scenario_metrics = []"
    by (simp add: mid_yield_def scenario_metrics_def)
  moreover have "set_class_targets scenario_metrics = Inl ZeroDivisionError"
    by (simp add: targets_eval) (simp add: scenario_metrics_def)
  ultimately show ?thesis
    using scenario_performance regional_risk_targets by simp
qed

text \<open>
  C10. The risk rates have one entry per priced class, so \<open>n\<close> is the number of priced
  classes. When \<open>n = 7\<close>, \<open>_set_risk_targets\<close> raises ZeroDivisionError; otherwise
  it returns, with the premium value the sum of the risk over the priced classes among
  J and Y divided by 2, the mid-tier value the sum over those among C, B, D, W and H
  divided by 5, and the economy value the sum over all other classes divided by
  \<open>n - 7\<close>, whichever of the listed classes are priced.
\<close>

theorem risk_targets_fixed_denominators:
  assumes "analyze_current_performance revenue_analysis allocation pricing = Inr current"
  shows "length (risk_rates current) = card (Booking_Class ` set pricing)
       \<and> fst ` set (risk_rates current) = Booking_Class ` set pricing
       \<and> (card (Booking_Class ` set pricing) = 7 \<longrightarrow>
            set_risk_targets current = Inl ZeroDivisionError)
       \<and> (card (Booking_Class ` set pricing) \<noteq> 7 \<longrightarrow>
            (\<exists>rt. set_risk_targets current = Inr rt
               \<and> map (\<lambda>g. (fst g, current_risk (snd g))) (by_class_type rt) =
                   [(''premium'', risk_sum (\<lambda>k. k \<in> {''J'', ''Y''}) (risk_rates current) / 2),
                    (''mid_tier'',
                       risk_sum (\<lambda>k. k \<in> {''C'', ''B'', ''D'', ''W'', ''H''}) (risk_rates current) / 5),
                    (''economy'',
                       risk_sum (\<lambda>k. k \<notin> {''J'', ''Y'', ''C'', ''B'', ''D'', ''W'', ''H''})
                         (risk_rates current)
                         / (real (card (Booking_Class ` set pricing)) - 7))]))"
proof -
  note acp = analyze_current_performance_Inr [OF assms]
  have n: "length (risk_rates current) = card (Booking_Class ` set pricing)"
    by (simp add: acp(2) length_risk_rates_dict)
  have keys: "fst ` set (risk_rates current) = Booking_Class ` set pricing"
    using risk_rates_foldl [of "[]" pricing] by (simp add: acp(2) risk_rates_dict_def)
  from acp(3) have "card (Booking_Class ` set pricing) \<noteq> 0" by simp
  with n have ne: "risk_rates current \<noteq> []" by auto
  from set_risk_targets_result [OF ne, unfolded n] n keys show ?thesis by auto
qed

text \<open>
  Two instances: the pricing of exactly the seven listed classes raises, and with Y
  (risk 0.1) as the only priced class the premium value is 0.05, not the mean 0.1 of the
  group.
\<close>

theorem risk_targets_fixed_denominators_witness:
  "card (Booking_Class ` set seven_pricing) = 7
   \<and> set_risk_targets (scenario_metrics\<lparr> risk_rates := risk_rates_dict seven_pricing \<rparr>)
       = Inl ZeroDivisionError
   \<and> (\<exists>rt. set_risk_targets (scenario_metrics\<lparr> risk_rates := [(''Y'', 0.1)] \<rparr>) = Inr rt
        \<and> map (\<lambda>g. (fst g, current_risk (snd g))) (by_class_type rt)
            = [(''premium'', 0.05), (''mid_tier'', 0), (''economy'', 0)])"
proof -
  from risk_targets_fixed_denominators [OF seven_performance] seven_classes
  have a: "set_risk_targets (scenario_metrics\<lparr> risk_rates := risk_rates_dict seven_pricing \<rparr>)
             = Inl ZeroDivisionError"
    by blast
  from risk_targets_fixed_denominators [OF single_performance]
  have "\<exists>rt. set_risk_targets (scenario_metrics\<lparr> risk_rates := [(''Y'', 0.1)] \<rparr>) = Inr rt
        \<and> map (\<lambda>g. (fst g, current_risk (snd g))) (by_class_type rt)
            = [(''premium'', 0.05), (''mid_tier'', 0), (''economy'', 0)]"
    by (simp add: risk_sum_def pricing_Y_def)
  with a seven_classes show ?thesis by blast
qed

end
